theory Spec2Isabelle
  imports Main
begin

section \<open>Data model (core/models.py)\<close>

text \<open>
  Primary keys of type UUIDField are numbered by naturals.  A DecimalField with
  \<open>decimal_places=2\<close> holds an exact multiple of 0.01; it is represented by the
  integer number of hundredths, so 10.00 is \<open>1000\<close> and the product of an integer
  quantity and a price is the integer product (Python's decimal arithmetic is
  exact up to 28 significant digits, far beyond any value that can be read back
  from a column); a value with more than two decimal places is not represented.
  The \<open>estado\<close> columns hold the integer of the choice; the choice
  classes of \<open>pos_project.choices\<close> are not part of these sources, so the default
  \<open>EstadoEntidades.ACTIVO\<close> is a parameter wherever a row is created with it.
  The \<open>auto_now_add\<close> timestamp columns take no part in any operation below and
  are left out of the rows.

  Field names carry a prefix per model, as several models share the names
  \<open>estado\<close>, \<open>grupo\<close>, \<open>articulo\<close>, \<open>pedido\<close>: \<open>g_\<close> GrupoArticulo, \<open>l_\<close> LineaArticulo,
  \<open>a_\<close> Articulo, \<open>lp_\<close> ListaPrecios, \<open>ip_\<close> ItemPedido, \<open>o_\<close> OrdenCompraCliente,
  \<open>i_\<close> ItemOrdenCompraCliente.  A foreign key column holds the key of the row it
  references.
\<close>

type_synonym uuid = nat
type_synonym decimal = int

record GrupoArticulo =
  g_grupo_id :: uuid
  g_codigo_grupo :: string
  g_nombre_grupo :: string
  g_estado :: int

record LineaArticulo =
  l_linea_id :: uuid
  l_codigo_linea :: string
  l_grupo :: uuid
  l_nombre_linea :: string
  l_estado :: int

record Articulo =
  a_articulo_id :: uuid
  a_codigo_articulo :: string
  a_codigo_barras :: string
  a_descripcion :: string
  a_presentacion :: string
  a_grupo :: uuid
  a_linea :: uuid
  a_estado :: int
  a_stock :: decimal
  a_imagen :: string

record ListaPrecios =
  lp_articulo :: uuid
  lp_precio_1 :: decimal
  lp_precio_2 :: decimal
  lp_precio_3 :: decimal
  lp_precio_4 :: decimal
  lp_precio_compra :: decimal
  lp_precio_costo :: decimal

record ItemPedido =
  ip_item_id :: uuid
  ip_pedido :: uuid
  ip_nro_item :: int
  ip_articulo :: uuid
  ip_cantidad :: int
  ip_precio_unitario :: decimal
  ip_total_item :: decimal
  ip_estado :: int

record OrdenCompraCliente =
  o_pedido_id :: uuid
  o_nro_pedido :: nat
  o_cliente :: uuid
  o_vendedor :: uuid
  o_importe :: decimal
  o_estado :: int
  o_notas :: "string option"
  o_creado_por :: uuid

record ItemOrdenCompraCliente =
  i_item_id :: uuid
  i_pedido :: nat
  i_nro_item :: int
  i_articulo :: uuid
  i_cantidad :: int
  i_precio_unitario :: decimal
  i_total_item :: decimal
  i_estado :: int
  i_creado_por :: uuid

text \<open>
  The database: one table per model, a table being the list of its rows.  Of the
  tables of Cliente and Vendedor, and of Usuario (a model of the \<open>accounts\<close>
  application, which is not part of these sources), only the keys are used, by the
  foreign keys that reference them; each is the list of its keys.  The table of
  Pedido is only referenced by ItemPedido and is not represented.

  The database is SQLite, the backend of a Django project that configures no
  other.  It stores a decimal of any size; the mapper refuses to read back a
  decimal with more digits than the \<open>max_digits\<close> of its column
  (\<open>decimal.InvalidOperation\<close>), and an integer outside 64 bits cannot be passed to
  the database at all (\<open>OverflowError\<close>).
\<close>

record store =
  grupos :: "GrupoArticulo list"
  lineas :: "LineaArticulo list"
  articulos :: "Articulo list"
  lista_precios :: "ListaPrecios list"
  items_pedido :: "ItemPedido list"
  ordenes :: "OrdenCompraCliente list"
  items_orden :: "ItemOrdenCompraCliente list"
  clientes :: "uuid list"
  vendedores :: "uuid list"
  usuarios :: "uuid list"

datatype mensaje =
    CodigoYaExiste
  | CodigoMuyCorto
  | DescripcionMuyCorta
  | DescripcionMuyLarga
  | StockNegativo
  | GrupoNoExiste
  | LineaNoPertenece
  | LineaNoExiste
  | Blank
  | MaxLength nat
  | MaxDigits nat
  | MinValue int

text \<open>
  Exceptions are values.  A \<open>ValidationError\<close> carries the error map, field name to
  message, in the order the fields are checked.
\<close>

datatype error =
    ValidationError "(string \<times> mensaje) list"
  | DoesNotExist
  | AttributeError
  | IntegrityError
  | RestrictedError
  | InvalidOperation
  | OverflowError

section \<open>Table operations of the object-relational mapper\<close>

text \<open>
  \<open>objects.get(pk=k)\<close> and a forward foreign-key access are \<open>buscar\<close>; \<open>None\<close>
  stands for the \<open>DoesNotExist\<close> exception.  \<open>Model.save()\<close> of an instance whose
  key is set updates the row with that key and inserts a row when there is none
  (\<open>guardar\<close>); \<open>borrar\<close> removes the rows with a key.
\<close>

definition buscar :: "('r \<Rightarrow> 'k) \<Rightarrow> 'k \<Rightarrow> 'r list \<Rightarrow> 'r option" where
  "buscar pk k filas = find (\<lambda>r. pk r = k) filas"

fun guardar :: "('r \<Rightarrow> 'k) \<Rightarrow> 'r \<Rightarrow> 'r list \<Rightarrow> 'r list" where
  "guardar pk r [] = [r]"
| "guardar pk r (x # xs) = (if pk x = pk r then r # xs else x # guardar pk r xs)"

definition borrar :: "('r \<Rightarrow> 'k) \<Rightarrow> 'k \<Rightarrow> 'r list \<Rightarrow> 'r list" where
  "borrar pk k filas = filter (\<lambda>r. pk r \<noteq> k) filas"

section \<open>Order items and order totals (core/models.py)\<close>

text \<open>
  An instance of ItemOrdenCompraCliente in memory: the fields of the row, whether
  the instance is new (\<open>_state.adding\<close>: it was built and not yet saved, rather than
  loaded), and the order instance attached to it as \<open>pedido\<close>, if any: an order
  that was loaded at some time, an object of its own, which may differ from the
  row of the order as it is stored now.
\<close>

record ItemInstancia = ItemOrdenCompraCliente +
  s_adding :: bool
  s_pedido :: "OrdenCompraCliente option"

definition fila_de :: "ItemInstancia \<Rightarrow> ItemOrdenCompraCliente" where
  "fila_de inst =
     \<lparr>i_item_id = i_item_id inst, i_pedido = i_pedido inst, i_nro_item = i_nro_item inst,
      i_articulo = i_articulo inst, i_cantidad = i_cantidad inst,
      i_precio_unitario = i_precio_unitario inst, i_total_item = i_total_item inst,
      i_estado = i_estado inst, i_creado_por = i_creado_por inst\<rparr>"

definition instancia ::
  "ItemOrdenCompraCliente \<Rightarrow> bool \<Rightarrow> OrdenCompraCliente option \<Rightarrow> ItemInstancia" where
  "instancia r adding pedido =
     \<lparr>i_item_id = i_item_id r, i_pedido = i_pedido r, i_nro_item = i_nro_item r,
      i_articulo = i_articulo r, i_cantidad = i_cantidad r,
      i_precio_unitario = i_precio_unitario r, i_total_item = i_total_item r,
      i_estado = i_estado r, i_creado_por = i_creado_por r,
      s_adding = adding, s_pedido = pedido\<rparr>"

text \<open>
  The attributes of an Articulo instance that lead to its price list.  The
  one-to-one field \<open>ListaPrecios.articulo\<close> is declared with
  \<open>related_name='articulo_lista'\<close>, so that is the only name under which the reverse
  accessor exists; it raises \<open>DoesNotExist\<close> when the article has no price list.
  No field of Articulo holds a price list, and a name that is neither a field nor
  a reverse accessor raises \<open>AttributeError\<close>.
\<close>

definition articulo_lista_attr :: "store \<Rightarrow> Articulo \<Rightarrow> string \<Rightarrow> error + ListaPrecios" where
  "articulo_lista_attr db a nombre =
     (if nombre = ''articulo_lista'' then
        (case buscar lp_articulo (a_articulo_id a) (lista_precios db) of
           None \<Rightarrow> Inl DoesNotExist
         | Some lp \<Rightarrow> Inr lp)
      else Inl AttributeError)"

text \<open>
  \<open>ItemOrdenCompraCliente.save\<close>, lines 172 to 180: the total, then the
  \<open>try\<close> block that reads \<open>self.articulo.listaprecio\<close>; the bare \<open>except: pass\<close>
  keeps the instance as it is on every exception.
\<close>

definition precio_de_lista :: "store \<Rightarrow> ItemInstancia \<Rightarrow> error + ListaPrecios" where
  "precio_de_lista db it =
     (case buscar a_articulo_id (i_articulo it) (articulos db) of
        None \<Rightarrow> Inl DoesNotExist
      | Some a \<Rightarrow> articulo_lista_attr db a ''listaprecio'')"

definition calcular_item :: "store \<Rightarrow> ItemInstancia \<Rightarrow> ItemInstancia" where
  "calcular_item db it =
     (let it1 = it\<lparr>i_total_item := i_cantidad it * i_precio_unitario it\<rparr> in
      if i_precio_unitario it1 = 0 then
        (case precio_de_lista db it1 of
           Inr lista_precio \<Rightarrow>
             it1\<lparr>i_precio_unitario := lp_precio_1 lista_precio,
                 i_total_item := i_cantidad it1 * lp_precio_1 lista_precio\<rparr>
         | Inl e \<Rightarrow> it1)
      else it1)"

text \<open>
  \<open>super().save()\<close>, the \<open>Model.save\<close> of the item, writes the row unless the
  database rejects it.  The integers of the row must fit in 64 bits.  A new
  instance is inserted, as its key has a default, and the insert fails when the
  key is already stored; an instance that is not new updates the row with its key
  and is inserted when there is none.  \<open>cantidad\<close> and \<open>nro_item\<close> are
  PositiveIntegerField columns, which carry the check \<open>>= 0\<close>, and \<open>pedido\<close>,
  \<open>articulo\<close> and \<open>creado_por\<close> are non-null foreign keys.  The decimals are
  written as they are.
\<close>

definition entero_sqlite :: "int \<Rightarrow> bool" where
  "entero_sqlite v = (- (2 ^ 63) \<le> v \<and> v < 2 ^ 63)"

definition item_model_save :: "store \<Rightarrow> ItemInstancia \<Rightarrow> error + store" where
  "item_model_save db inst =
     (if entero_sqlite (i_nro_item inst) \<and> entero_sqlite (i_cantidad inst)
         \<and> entero_sqlite (i_estado inst) \<and> entero_sqlite (int (i_pedido inst)) then
        (if s_adding inst \<and> list_ex (\<lambda>r. i_item_id r = i_item_id inst) (items_orden db)
           then Inl IntegrityError
         else if i_cantidad inst < 0 then Inl IntegrityError
         else if i_nro_item inst < 0 then Inl IntegrityError
         else if buscar o_nro_pedido (i_pedido inst) (ordenes db) = None then Inl IntegrityError
         else if buscar a_articulo_id (i_articulo inst) (articulos db) = None then Inl IntegrityError
         else if i_creado_por inst \<in> set (usuarios db) then
           Inr (db\<lparr>items_orden := guardar i_item_id (fila_de inst) (items_orden db)\<rparr>)
         else Inl IntegrityError)
      else Inl OverflowError)"

text \<open>
  Reading rows through the mapper.  A row of an order item has two decimal
  columns of 12 digits, a row of an order has \<open>importe\<close>, of 10 digits; a row with a
  decimal of more digits cannot be read.  \<open>item_get\<close> is \<open>objects.get(pk=k)\<close>: the
  instance it returns is not new and has no order attached.
\<close>

definition item_legible :: "'a ItemOrdenCompraCliente_scheme \<Rightarrow> bool" where
  "item_legible r = (\<bar>i_precio_unitario r\<bar> < 10 ^ 12 \<and> \<bar>i_total_item r\<bar> < 10 ^ 12)"

definition orden_legible :: "OrdenCompraCliente \<Rightarrow> bool" where
  "orden_legible orden = (\<bar>o_importe orden\<bar> < 10 ^ 10)"

definition item_get :: "store \<Rightarrow> uuid \<Rightarrow> error + ItemInstancia" where
  "item_get db k =
     (case buscar i_item_id k (items_orden db) of
        None \<Rightarrow> Inl DoesNotExist
      | Some r \<Rightarrow> if item_legible r then Inr (instancia r False None) else Inl InvalidOperation)"

definition orden_get :: "store \<Rightarrow> nat \<Rightarrow> error + OrdenCompraCliente" where
  "orden_get db nro =
     (case buscar o_nro_pedido nro (ordenes db) of
        None \<Rightarrow> Inl DoesNotExist
      | Some orden \<Rightarrow> if orden_legible orden then Inr orden else Inl InvalidOperation)"

text \<open>
  \<open>self.pedido\<close>: the order instance attached to the item when there is one with
  the key the item refers to (saving the item drops any other), else the row read
  from the database.
\<close>

definition item_pedido :: "store \<Rightarrow> ItemInstancia \<Rightarrow> error + OrdenCompraCliente" where
  "item_pedido db inst =
     (case s_pedido inst of
        None \<Rightarrow> orden_get db (i_pedido inst)
      | Some orden \<Rightarrow>
          if o_nro_pedido orden = i_pedido inst then Inr orden
          else orden_get db (i_pedido inst))"

text \<open>
  \<open>self.items_orden_compra.all()\<close>: the rows whose \<open>pedido\<close> is this order, whatever
  their \<open>estado\<close>; all of them are read.
\<close>

definition items_orden_compra :: "store \<Rightarrow> nat \<Rightarrow> error + ItemOrdenCompraCliente list" where
  "items_orden_compra db nro =
     (let filas = filter (\<lambda>r. i_pedido r = nro) (items_orden db) in
      if list_all item_legible filas then Inr filas else Inl InvalidOperation)"

text \<open>
  \<open>self.save()\<close> of an order, whose key has no default: the row with the key is
  updated, or inserted when there is none, with every column of the instance.
  \<open>pedido_id\<close> is unique, and \<open>cliente\<close>, \<open>vendedor\<close> and \<open>creado_por\<close> are non-null
  foreign keys.
\<close>

definition orden_model_save :: "store \<Rightarrow> OrdenCompraCliente \<Rightarrow> error + store" where
  "orden_model_save db orden =
     (if entero_sqlite (o_estado orden) \<and> entero_sqlite (int (o_nro_pedido orden)) then
        (if list_ex (\<lambda>r. o_pedido_id r = o_pedido_id orden \<and> o_nro_pedido r \<noteq> o_nro_pedido orden)
              (ordenes db) then Inl IntegrityError
         else if o_cliente orden \<in> set (clientes db) \<and> o_vendedor orden \<in> set (vendedores db)
                 \<and> o_creado_por orden \<in> set (usuarios db) then
           Inr (db\<lparr>ordenes := guardar o_nro_pedido orden (ordenes db)\<rparr>)
         else Inl IntegrityError)
      else Inl OverflowError)"

text \<open>
  \<open>OrdenCompraCliente.actualizar_total\<close>, lines 145 to 149, on an order instance:
  the instance with its new \<open>importe\<close> and the database after its \<open>save\<close>.
\<close>

definition actualizar_total ::
  "store \<Rightarrow> OrdenCompraCliente \<Rightarrow> error + OrdenCompraCliente \<times> store" where
  "actualizar_total db orden =
     (case items_orden_compra db (o_nro_pedido orden) of
        Inl e \<Rightarrow> Inl e
      | Inr filas \<Rightarrow>
          (let total = sum_list (map i_total_item filas);
               orden1 = orden\<lparr>o_importe := total\<rparr>
           in case orden_model_save db orden1 of
                Inl e \<Rightarrow> Inl e
              | Inr db1 \<Rightarrow> Inr (orden1, db1)))"

text \<open>
  \<open>ItemOrdenCompraCliente.save\<close>, lines 170 to 183.  The result is the instance
  after the call, or the exception, and the database after the call: a row
  written before an exception stays written, as \<open>save\<close> opens no transaction.  Once
  its row is written the instance is no longer new, and the order that
  \<open>self.pedido\<close> gave stays attached to it, with the \<open>importe\<close> that
  \<open>actualizar_total\<close> set.
\<close>

definition item_save :: "store \<Rightarrow> ItemInstancia \<Rightarrow> (error + ItemInstancia) \<times> store" where
  "item_save db inst =
     (let inst1 = calcular_item db inst in
      case item_model_save db inst1 of
        Inl e \<Rightarrow> (Inl e, db)
      | Inr db1 \<Rightarrow>
          (let inst2 = inst1\<lparr>s_adding := False\<rparr> in
           case item_pedido db1 inst2 of
             Inl e \<Rightarrow> (Inl e, db1)
           | Inr orden \<Rightarrow>
               (case actualizar_total db1 orden of
                  Inl e \<Rightarrow> (Inl e, db1)
                | Inr (orden1, db2) \<Rightarrow> (Inr (inst2\<lparr>s_pedido := Some orden1\<rparr>), db2))))"

text \<open>
  No model overrides \<open>delete\<close> and no relation points to an order item, so deleting
  an item removes its row and nothing else.
\<close>

definition item_delete :: "store \<Rightarrow> uuid \<Rightarrow> store" where
  "item_delete db k = db\<lparr>items_orden := borrar i_item_id k (items_orden db)\<rparr>"

text \<open>
  The stored \<open>importe\<close> of an order, and the sum of the stored totals of the items
  of an order, computed row by row.
\<close>

definition importe_de :: "store \<Rightarrow> nat \<Rightarrow> decimal option" where
  "importe_de db nro = map_option o_importe (find (\<lambda>orden. o_nro_pedido orden = nro) (ordenes db))"

fun suma_de_orden :: "nat \<Rightarrow> ItemOrdenCompraCliente list \<Rightarrow> decimal" where
  "suma_de_orden nro [] = 0"
| "suma_de_orden nro (r # filas) =
     (if i_pedido r = nro then i_total_item r + suma_de_orden nro filas
      else suma_de_orden nro filas)"

definition suma_items :: "store \<Rightarrow> nat \<Rightarrow> decimal" where
  "suma_items db nro = suma_de_orden nro (items_orden db)"

section \<open>Article serializers (api/serializers.py)\<close>

text \<open>
  Declared field constraints.  A serializer field checks what its declaration
  states before the serializer's own \<open>validate_<field>\<close> hook runs: a CharField
  that does not allow blank rejects the empty string and then checks its
  \<open>max_length\<close>; a DecimalField checks its \<open>max_digits\<close> (with two decimal places, at
  most \<open>max_digits\<close> digits means an absolute value below \<open>10 ^ max_digits\<close>
  hundredths) and then its \<open>min_value\<close> when one is declared.  The values below are
  the field values as the framework has parsed them from the request (a string
  with its surrounding whitespace trimmed, a decimal number, a key); every field
  is present.
\<close>

definition campo_char :: "nat \<Rightarrow> string \<Rightarrow> mensaje + string" where
  "campo_char max_length v =
     (if v = [] then Inl Blank
      else if length v > max_length then Inl (MaxLength max_length)
      else Inr v)"

definition campo_decimal :: "nat \<Rightarrow> decimal option \<Rightarrow> decimal \<Rightarrow> mensaje + decimal" where
  "campo_decimal max_digits min_value v =
     (if \<bar>v\<bar> \<ge> 10 ^ max_digits then Inl (MaxDigits max_digits)
      else case min_value of
             None \<Rightarrow> Inr v
           | Some m \<Rightarrow> (if v < m then Inl (MinValue m) else Inr v))"

definition entonces :: "'e + 'a \<Rightarrow> ('a \<Rightarrow> 'e + 'b) \<Rightarrow> 'e + 'b" where
  "entonces r f = (case r of Inl e \<Rightarrow> Inl e | Inr v \<Rightarrow> f v)"

definition error_de :: "string \<Rightarrow> mensaje + 'a \<Rightarrow> (string \<times> mensaje) list" where
  "error_de campo r = (case r of Inl m \<Rightarrow> [(campo, m)] | Inr v \<Rightarrow> [])"

subsection \<open>ArticuloCreateSerializer\<close>

text \<open>The fields of \<open>Meta.fields\<close>, lines 168 to 171, as parsed values.\<close>

record ArticuloCreateData =
  d_codigo_articulo :: string
  d_codigo_barras :: string
  d_descripcion :: string
  d_presentacion :: string
  d_grupo_id :: uuid
  d_linea_id :: uuid
  d_stock :: decimal
  d_precio_1 :: decimal

definition validate_codigo_articulo :: "store \<Rightarrow> string \<Rightarrow> mensaje + string" where
  "validate_codigo_articulo db v =
     (if list_ex (\<lambda>a. a_codigo_articulo a = v) (articulos db) then Inl CodigoYaExiste
      else if length v < 4 then Inl CodigoMuyCorto
      else Inr v)"

definition validate_descripcion :: "string \<Rightarrow> mensaje + string" where
  "validate_descripcion v =
     (if length v < 5 then Inl DescripcionMuyCorta
      else if length v > 150 then Inl DescripcionMuyLarga
      else Inr v)"

definition validate_stock :: "decimal \<Rightarrow> mensaje + decimal" where
  "validate_stock v = (if v < 0 then Inl StockNegativo else Inr v)"

text \<open>
  The field stage of \<open>is_valid\<close>: every field of \<open>Meta.fields\<close> is checked in order,
  its declared constraints and then its hook, and the failures are collected under
  the field's name.  The four CharFields come from the model columns, with their
  lengths 25, 25, 150 and 100 and without \<open>blank=True\<close>; \<open>stock\<close> is the model's
  DecimalField(12, 2) and \<open>precio_1\<close> is declared at line 164.
\<close>

definition errores_de_campos :: "store \<Rightarrow> ArticuloCreateData \<Rightarrow> (string \<times> mensaje) list" where
  "errores_de_campos db d =
     error_de ''codigo_articulo''
       (entonces (campo_char 25 (d_codigo_articulo d)) (validate_codigo_articulo db))
   @ error_de ''codigo_barras'' (campo_char 25 (d_codigo_barras d))
   @ error_de ''descripcion'' (entonces (campo_char 150 (d_descripcion d)) validate_descripcion)
   @ error_de ''presentacion'' (campo_char 100 (d_presentacion d))
   @ error_de ''stock'' (entonces (campo_decimal 12 None (d_stock d)) validate_stock)
   @ error_de ''precio_1'' (campo_decimal 12 (Some 0) (d_precio_1 d))"

text \<open>
  \<open>ArticuloCreateSerializer.validate\<close>, lines 209 to 239.  \<open>linea.grupo\<close> reads the
  line's group row; were it absent, the exception is not one the \<open>except\<close> clause
  names and it leaves the method.
\<close>

definition validate :: "store \<Rightarrow> ArticuloCreateData \<Rightarrow> error + ArticuloCreateData" where
  "validate db d =
     (case buscar g_grupo_id (d_grupo_id d) (grupos db) of
        None \<Rightarrow> Inl (ValidationError [(''grupo_id'', GrupoNoExiste)])
      | Some grupo \<Rightarrow>
          (case buscar l_linea_id (d_linea_id d) (lineas db) of
             None \<Rightarrow> Inl (ValidationError [(''linea_id'', LineaNoExiste)])
           | Some linea \<Rightarrow>
               (case buscar g_grupo_id (l_grupo linea) (grupos db) of
                  None \<Rightarrow> Inl DoesNotExist
                | Some linea_grupo \<Rightarrow>
                    if g_grupo_id linea_grupo = d_grupo_id d then Inr d
                    else Inl (ValidationError [(''linea_id'', LineaNoPertenece)]))))"

text \<open>
  \<open>is_valid\<close>: the object-level \<open>validate\<close> runs only when no field failed.
\<close>

definition run_validation :: "store \<Rightarrow> ArticuloCreateData \<Rightarrow> error + ArticuloCreateData" where
  "run_validation db d =
     (let errores = errores_de_campos db d in
      if errores = [] then validate db d else Inl (ValidationError errores))"

text \<open>
  \<open>Articulo.objects.create\<close> inserts a new row: the key must be new and the
  non-null foreign keys \<open>grupo\<close> and \<open>linea\<close> must reference rows.
\<close>

definition articulo_insert :: "store \<Rightarrow> Articulo \<Rightarrow> error + store" where
  "articulo_insert db a =
     (if buscar a_articulo_id (a_articulo_id a) (articulos db) = None then
        (if buscar g_grupo_id (a_grupo a) (grupos db) = None then Inl IntegrityError
         else if buscar l_linea_id (a_linea a) (lineas db) = None then Inl IntegrityError
         else Inr (db\<lparr>articulos := articulos db @ [a]\<rparr>))
      else Inl IntegrityError)"

text \<open>
  \<open>ListaPrecios.objects.create\<close> with the keyword arguments of the call; an
  argument that is not passed is \<open>None\<close>, as no price column declares a default.
  The six price columns are declared without \<open>null=True\<close>, so the insert of a row
  with a \<open>None\<close> price is rejected, as is a second row for the same article (the
  article is the primary key) and a row for an article that does not exist.
\<close>

definition lista_precios_create ::
  "store \<Rightarrow> uuid \<Rightarrow> decimal option \<Rightarrow> decimal option \<Rightarrow> decimal option \<Rightarrow> decimal option \<Rightarrow>
   decimal option \<Rightarrow> decimal option \<Rightarrow> error + store" where
  "lista_precios_create db articulo precio_1 precio_2 precio_3 precio_4 precio_compra precio_costo =
     (case (precio_1, precio_2, precio_3, precio_4, precio_compra, precio_costo) of
        (Some p1, Some p2, Some p3, Some p4, Some pc, Some pk) \<Rightarrow>
          (if buscar a_articulo_id articulo (articulos db) = None then Inl IntegrityError
           else if buscar lp_articulo articulo (lista_precios db) = None then
             Inr (db\<lparr>lista_precios := lista_precios db @
                    [\<lparr>lp_articulo = articulo, lp_precio_1 = p1, lp_precio_2 = p2, lp_precio_3 = p3,
                      lp_precio_4 = p4, lp_precio_compra = pc, lp_precio_costo = pk\<rparr>]\<rparr>)
           else Inl IntegrityError)
      | _ \<Rightarrow> Inl IntegrityError)"

text \<open>
  \<open>ArticuloCreateSerializer.create\<close>, lines 241 to 269.  \<open>articulo_id\<close> is the
  value \<open>uuid.uuid4()\<close> returns and \<open>activo\<close> the default of the \<open>estado\<close> column; the
  column \<open>imagen\<close> is not passed and takes the empty string.  The method opens no
  transaction: a row written before an exception stays written.
\<close>

definition create ::
  "store \<Rightarrow> uuid \<Rightarrow> int \<Rightarrow> ArticuloCreateData \<Rightarrow> (error + Articulo) \<times> store" where
  "create db articulo_id activo validated_data =
     (let precio_1 = d_precio_1 validated_data in
      case buscar g_grupo_id (d_grupo_id validated_data) (grupos db) of
        None \<Rightarrow> (Inl DoesNotExist, db)
      | Some grupo \<Rightarrow>
          (case buscar l_linea_id (d_linea_id validated_data) (lineas db) of
             None \<Rightarrow> (Inl DoesNotExist, db)
           | Some linea \<Rightarrow>
               (let articulo =
                      \<lparr>a_articulo_id = articulo_id,
                       a_codigo_articulo = d_codigo_articulo validated_data,
                       a_codigo_barras = d_codigo_barras validated_data,
                       a_descripcion = d_descripcion validated_data,
                       a_presentacion = d_presentacion validated_data,
                       a_grupo = g_grupo_id grupo,
                       a_linea = l_linea_id linea,
                       a_estado = activo,
                       a_stock = d_stock validated_data,
                       a_imagen = []\<rparr>
                in case articulo_insert db articulo of
                     Inl e \<Rightarrow> (Inl e, db)
                   | Inr db1 \<Rightarrow>
                       (case lista_precios_create db1 (a_articulo_id articulo) (Some precio_1)
                               None None None None None of
                          Inl e \<Rightarrow> (Inl e, db1)
                        | Inr db2 \<Rightarrow> (Inr articulo, db2)))))"

text \<open>
  Creating an article through the serializer: \<open>is_valid\<close>, and \<open>save\<close> (which calls
  \<open>create\<close>) only on validated data.
\<close>

definition crear_articulo ::
  "store \<Rightarrow> uuid \<Rightarrow> int \<Rightarrow> ArticuloCreateData \<Rightarrow> (error + Articulo) \<times> store" where
  "crear_articulo db articulo_id activo d =
     (case run_validation db d of
        Inl e \<Rightarrow> (Inl e, db)
      | Inr validated_data \<Rightarrow> create db articulo_id activo validated_data)"

subsection \<open>ArticuloSerializer\<close>

text \<open>
  The \<open>validated_data\<close> of ArticuloSerializer (lines 7 to 25): a dictionary in
  which each of the five writable fields is present or not.  Its \<open>stock\<close> field is
  declared at line 13 with \<open>max_digits=12\<close>, \<open>decimal_places=2\<close> and no \<open>min_value\<close>,
  and the class has no \<open>validate_stock\<close>.
\<close>

record ArticuloData =
  v_codigo_articulo :: "string option"
  v_codigo_barras :: "string option"
  v_descripcion :: "string option"
  v_presentacion :: "string option"
  v_stock :: "decimal option"

definition ArticuloSerializer_stock :: "decimal \<Rightarrow> mensaje + decimal" where
  "ArticuloSerializer_stock v = campo_decimal 12 None v"

definition dict_get :: "'a option \<Rightarrow> 'a \<Rightarrow> 'a" where
  "dict_get valor por_defecto = (case valor of Some v \<Rightarrow> v | None \<Rightarrow> por_defecto)"

text \<open>\<open>instance.save()\<close> of an article: the foreign keys must reference rows.\<close>

definition articulo_model_save :: "store \<Rightarrow> Articulo \<Rightarrow> error + store" where
  "articulo_model_save db a =
     (if buscar g_grupo_id (a_grupo a) (grupos db) = None then Inl IntegrityError
      else if buscar l_linea_id (a_linea a) (lineas db) = None then Inl IntegrityError
      else Inr (db\<lparr>articulos := guardar a_articulo_id a (articulos db)\<rparr>))"

definition update :: "store \<Rightarrow> Articulo \<Rightarrow> ArticuloData \<Rightarrow> (error + Articulo) \<times> store" where
  "update db instance validated_data =
     (let instance1 = instance
            \<lparr>a_codigo_articulo := dict_get (v_codigo_articulo validated_data) (a_codigo_articulo instance),
             a_codigo_barras := dict_get (v_codigo_barras validated_data) (a_codigo_barras instance),
             a_descripcion := dict_get (v_descripcion validated_data) (a_descripcion instance),
             a_presentacion := dict_get (v_presentacion validated_data) (a_presentacion instance),
             a_stock := dict_get (v_stock validated_data) (a_stock instance)\<rparr>
      in case articulo_model_save db instance1 of
           Inl e \<Rightarrow> (Inl e, db)
         | Inr db1 \<Rightarrow> (Inr instance1, db1))"

section \<open>Deleting rows (the \<open>on_delete\<close> declarations of core/models.py)\<close>

text \<open>
  No model overrides \<open>delete\<close>.  Deleting a row follows the \<open>on_delete\<close> of every
  foreign key that points to its model: \<open>RESTRICT\<close> raises \<open>RestrictedError\<close> while a
  referencing row exists, \<open>CASCADE\<close> deletes the referencing rows with it.

  Articulo is referenced by \<open>ListaPrecios.articulo\<close> (CASCADE) and by
  \<open>ItemPedido.articulo\<close> and \<open>ItemOrdenCompraCliente.articulo\<close> (RESTRICT);
  GrupoArticulo by \<open>LineaArticulo.grupo\<close> and \<open>Articulo.grupo\<close> (RESTRICT);
  LineaArticulo by \<open>Articulo.linea\<close> (RESTRICT).
\<close>

definition articulo_delete :: "store \<Rightarrow> uuid \<Rightarrow> error + store" where
  "articulo_delete db k =
     (if list_ex (\<lambda>it. ip_articulo it = k) (items_pedido db) then Inl RestrictedError
      else if list_ex (\<lambda>it. i_articulo it = k) (items_orden db) then Inl RestrictedError
      else Inr (db\<lparr>lista_precios := borrar lp_articulo k (lista_precios db),
                   articulos := borrar a_articulo_id k (articulos db)\<rparr>))"

definition grupo_delete :: "store \<Rightarrow> uuid \<Rightarrow> error + store" where
  "grupo_delete db k =
     (if list_ex (\<lambda>l. l_grupo l = k) (lineas db) then Inl RestrictedError
      else if list_ex (\<lambda>a. a_grupo a = k) (articulos db) then Inl RestrictedError
      else Inr (db\<lparr>grupos := borrar g_grupo_id k (grupos db)\<rparr>))"

definition linea_delete :: "store \<Rightarrow> uuid \<Rightarrow> error + store" where
  "linea_delete db k =
     (if list_ex (\<lambda>a. a_linea a = k) (articulos db) then Inl RestrictedError
      else Inr (db\<lparr>lineas := borrar l_linea_id k (lineas db)\<rparr>))"

section \<open>Example data\<close>

text \<open>
  A small database: two groups, a line in each, one article (group 1, line 1)
  with a complete price list whose \<open>precio_1\<close> is 10.00, and order 7 with no items,
  of customer 1 and seller 1, created by user 1.
\<close>

definition grupo_ej :: "uuid \<Rightarrow> GrupoArticulo" where
  "grupo_ej k = \<lparr>g_grupo_id = k, g_codigo_grupo = ''G'', g_nombre_grupo = ''Grupo'', g_estado = 1\<rparr>"

definition linea_ej :: "uuid \<Rightarrow> uuid \<Rightarrow> LineaArticulo" where
  "linea_ej k g = \<lparr>l_linea_id = k, l_codigo_linea = ''L'', l_grupo = g, l_nombre_linea = ''Linea'',
     l_estado = 1\<rparr>"

definition articulo_ej :: Articulo where
  "articulo_ej = \<lparr>a_articulo_id = 10, a_codigo_articulo = ''A001'', a_codigo_barras = ''775'',
     a_descripcion = ''Arroz'', a_presentacion = ''Bolsa'', a_grupo = 1, a_linea = 1, a_estado = 1,
     a_stock = 500, a_imagen = []\<rparr>"

definition lista_ej :: ListaPrecios where
  "lista_ej = \<lparr>lp_articulo = 10, lp_precio_1 = 1000, lp_precio_2 = 900, lp_precio_3 = 800,
     lp_precio_4 = 700, lp_precio_compra = 500, lp_precio_costo = 600\<rparr>"

definition orden_ej :: OrdenCompraCliente where
  "orden_ej = \<lparr>o_pedido_id = 70, o_nro_pedido = 7, o_cliente = 1, o_vendedor = 1, o_importe = 0,
     o_estado = 1, o_notas = None, o_creado_por = 1\<rparr>"

definition db_ejemplo :: store where
  "db_ejemplo = \<lparr>grupos = [grupo_ej 1, grupo_ej 2], lineas = [linea_ej 1 1, linea_ej 2 2],
     articulos = [articulo_ej], lista_precios = [lista_ej], items_pedido = [],
     ordenes = [orden_ej], items_orden = [], clientes = [1], vendedores = [1], usuarios = [1]\<rparr>"

text \<open>
  A new item of order 7 for article 10, not saved yet; the instance that loading
  the row of such an item gives once it is saved; and the data of a request to
  create an article.
\<close>

definition item_ej :: "uuid \<Rightarrow> int \<Rightarrow> decimal \<Rightarrow> int \<Rightarrow> ItemInstancia" where
  "item_ej k cantidad precio estado = \<lparr>i_item_id = k, i_pedido = 7, i_nro_item = 1, i_articulo = 10,
     i_cantidad = cantidad, i_precio_unitario = precio, i_total_item = 0, i_estado = estado,
     i_creado_por = 1, s_adding = True, s_pedido = None\<rparr>"

definition item_cargado :: "uuid \<Rightarrow> int \<Rightarrow> decimal \<Rightarrow> int \<Rightarrow> ItemInstancia" where
  "item_cargado k cantidad precio estado =
     (item_ej k cantidad precio estado)\<lparr>i_total_item := cantidad * precio, s_adding := False\<rparr>"

definition datos_ej :: "string \<Rightarrow> uuid \<Rightarrow> uuid \<Rightarrow> ArticuloCreateData" where
  "datos_ej codigo g l = \<lparr>d_codigo_articulo = codigo, d_codigo_barras = ''776'',
     d_descripcion = ''Azucar'', d_presentacion = ''Bolsa'', d_grupo_id = g, d_linea_id = l,
     d_stock = 300, d_precio_1 = 450\<rparr>"

text \<open>Order 7 after items of 5.00 and of 7.50 were saved.\<close>

definition db_dos_items :: store where
  "db_dos_items =
     snd (item_save (snd (item_save db_ejemplo (item_ej 101 1 500 1))) (item_ej 102 3 250 0))"

lemmas db_defs = grupo_ej_def linea_ej_def articulo_ej_def lista_ej_def orden_ej_def db_ejemplo_def

lemmas item_defs = item_save_def item_model_save_def calcular_item_def precio_de_lista_def
  articulo_lista_attr_def actualizar_total_def items_orden_compra_def orden_model_save_def
  item_pedido_def orden_get_def item_get_def item_legible_def orden_legible_def entero_sqlite_def
  fila_de_def instancia_def buscar_def importe_de_def suma_items_def

lemmas crear_defs = crear_articulo_def run_validation_def errores_de_campos_def error_de_def
  entonces_def campo_char_def campo_decimal_def validate_codigo_articulo_def
  validate_descripcion_def validate_stock_def validate_def create_def articulo_insert_def
  lista_precios_create_def buscar_def

section \<open>Tables\<close>

lemma buscar_pk: "buscar pk k xs = Some r \<Longrightarrow> pk r = k"
  unfolding buscar_def by (induction xs) (auto split: if_splits)

lemma buscar_guardar: "buscar pk (pk r) (guardar pk r xs) = Some r"
  unfolding buscar_def by (induction xs) auto

lemma guardar_idem: "guardar pk r (guardar pk r xs) = guardar pk r xs"
  by (induction xs) auto

lemma guardar_mismo: "buscar pk (pk r) xs = Some r \<Longrightarrow> guardar pk r xs = xs"
  unfolding buscar_def by (induction xs) (auto split: if_splits)

lemma set_guardar: "set (guardar pk r xs) \<subseteq> insert r (set xs)"
  by (induction xs) auto

lemma buscar_borrar: "buscar pk k (borrar pk k xs) = None"
  unfolding buscar_def borrar_def by (induction xs) auto

lemma list_all_guardar:
  "list_all P (filter Q xs) \<Longrightarrow> P r \<Longrightarrow> list_all P (filter Q (guardar pk r xs))"
  using set_guardar [of pk r xs] by (auto simp: list_all_iff)

lemma list_ex_guardar:
  "list_ex P (guardar pk r xs) \<Longrightarrow> list_ex P xs \<or> P r"
  using set_guardar [of pk r xs] by (auto simp: list_ex_iff)

lemma buscar_None_list_ex: "buscar pk k xs = None \<Longrightarrow> list_ex (\<lambda>r. pk r = k) xs = False"
  unfolding buscar_def by (auto simp: find_None_iff list_ex_iff)

text \<open>
  The sum over the rows of an order, row by row, is the sum the code takes over
  the rows it selects; removing the row with key \<open>k\<close> from a table with unique keys
  lowers the sum of the row's order by the row's total.
\<close>

lemma suma_de_orden_filter:
  "suma_de_orden nro filas = sum_list (map i_total_item (filter (\<lambda>r. i_pedido r = nro) filas))"
  by (induction filas) auto

lemma suma_de_orden_borrar:
  "distinct (map i_item_id filas) \<Longrightarrow> buscar i_item_id k filas = Some r \<Longrightarrow>
   suma_de_orden nro filas =
   suma_de_orden nro (borrar i_item_id k filas) + (if i_pedido r = nro then i_total_item r else 0)"
  unfolding buscar_def borrar_def
proof (induction filas)
  case Nil
  then show ?case by simp
next
  case (Cons x xs)
  show ?case
  proof (cases "i_item_id x = k")
    case True
    then have r: "r = x" using Cons.prems(2) by simp
    have "k \<notin> i_item_id ` set xs" using Cons.prems(1) True by auto
    then have "filter (\<lambda>r. i_item_id r \<noteq> k) xs = xs" by (auto simp: filter_id_conv)
    then show ?thesis using True r by simp
  next
    case False
    then show ?thesis using Cons by simp
  qed
qed

section \<open>Saving an order item\<close>

text \<open>
  The \<open>try\<close> block of \<open>save\<close> never yields a price list: the name it reads,
  \<open>listaprecio\<close>, is not the name of the reverse accessor, so the access raises and
  the \<open>except\<close> clause keeps price and total as computed before.
\<close>

lemma precio_de_lista_falla: "\<exists>e. precio_de_lista db inst = Inl e"
  unfolding precio_de_lista_def articulo_lista_attr_def by (simp split: option.split)

lemma calcular_item_eq:
  "calcular_item db inst = inst\<lparr>i_total_item := i_cantidad inst * i_precio_unitario inst\<rparr>"
proof -
  have "\<And>x. (case precio_de_lista db x of Inl e \<Rightarrow> a | Inr lp \<Rightarrow> b lp) = a"
    for a :: ItemInstancia and b
  proof -
    fix x
    obtain e where "precio_de_lista db x = Inl e" using precio_de_lista_falla by blast
    then show "(case precio_de_lista db x of Inl e \<Rightarrow> a | Inr lp \<Rightarrow> b lp) = a" by simp
  qed
  then show ?thesis unfolding calcular_item_def Let_def by simp
qed

lemma fila_de_simps [simp]:
  "i_item_id (fila_de i) = i_item_id i" "i_pedido (fila_de i) = i_pedido i"
  "i_nro_item (fila_de i) = i_nro_item i" "i_articulo (fila_de i) = i_articulo i"
  "i_cantidad (fila_de i) = i_cantidad i" "i_precio_unitario (fila_de i) = i_precio_unitario i"
  "i_total_item (fila_de i) = i_total_item i" "i_estado (fila_de i) = i_estado i"
  "i_creado_por (fila_de i) = i_creado_por i"
  "fila_de (i\<lparr>s_adding := a\<rparr>) = fila_de i" "fila_de (i\<lparr>s_pedido := p\<rparr>) = fila_de i"
  by (simp_all add: fila_de_def)

lemma fila_de_instancia [simp]: "fila_de (instancia r a p) = r"
  by (simp add: fila_de_def instancia_def)

lemma item_pedido_pk: "item_pedido db inst = Inr orden \<Longrightarrow> o_nro_pedido orden = i_pedido inst"
  unfolding item_pedido_def orden_get_def
  by (auto split: option.splits if_splits dest: buscar_pk)

lemma orden_model_save_Inr:
  "orden_model_save db orden = Inr db1 \<Longrightarrow>
   db1 = db\<lparr>ordenes := guardar o_nro_pedido orden (ordenes db)\<rparr>"
  unfolding orden_model_save_def by (auto split: if_splits)

lemma item_model_save_Inr:
  "item_model_save db inst = Inr db1 \<Longrightarrow>
   db1 = db\<lparr>items_orden := guardar i_item_id (fila_de inst) (items_orden db)\<rparr>
   \<and> 0 \<le> i_cantidad inst \<and> 0 \<le> i_nro_item inst"
  unfolding item_model_save_def by (auto split: if_splits)

lemma actualizar_total_Inr:
  assumes "actualizar_total db orden = Inr (orden1, db1)"
  shows "orden1 = orden\<lparr>o_importe := suma_de_orden (o_nro_pedido orden) (items_orden db)\<rparr>
     \<and> db1 = db\<lparr>ordenes := guardar o_nro_pedido orden1 (ordenes db)\<rparr>
     \<and> orden_model_save db orden1 = Inr db1
     \<and> list_all item_legible (filter (\<lambda>r. i_pedido r = o_nro_pedido orden) (items_orden db))"
  using assms unfolding actualizar_total_def items_orden_compra_def Let_def
  by (auto simp: suma_de_orden_filter split: if_splits sum.splits dest: orden_model_save_Inr)

lemma importe_guardar:
  "importe_de (db\<lparr>ordenes := guardar o_nro_pedido orden (ordenes db)\<rparr>) (o_nro_pedido orden)
     = Some (o_importe orden)"
  unfolding importe_de_def using buscar_guardar [of o_nro_pedido orden "ordenes db"]
  by (simp add: buscar_def)

text \<open>What a successful save has checked and written.\<close>

lemma item_save_Inr:
  assumes "item_save db inst = (Inr inst1, db1)"
  shows "\<exists>dbw orden orden1.
       item_model_save db (calcular_item db inst) = Inr dbw
     \<and> item_pedido dbw ((calcular_item db inst)\<lparr>s_adding := False\<rparr>) = Inr orden
     \<and> actualizar_total dbw orden = Inr (orden1, db1)
     \<and> inst1 = (calcular_item db inst)\<lparr>s_adding := False, s_pedido := Some orden1\<rparr>"
  using assms unfolding item_save_def Let_def
  by (auto split: sum.splits prod.splits)

lemma item_save_importe:
  assumes "item_save db inst = (Inr inst1, db1)"
  shows "importe_de db1 (i_pedido inst1) = Some (suma_items db1 (i_pedido inst1))"
proof -
  obtain dbw orden orden1 where
    w: "item_model_save db (calcular_item db inst) = Inr dbw"
    and p: "item_pedido dbw ((calcular_item db inst)\<lparr>s_adding := False\<rparr>) = Inr orden"
    and a: "actualizar_total dbw orden = Inr (orden1, db1)"
    and i: "inst1 = (calcular_item db inst)\<lparr>s_adding := False, s_pedido := Some orden1\<rparr>"
    using item_save_Inr [OF assms] by blast
  have k: "o_nro_pedido orden = i_pedido inst1" using item_pedido_pk [OF p] i by simp
  from actualizar_total_Inr [OF a] have
    o1: "orden1 = orden\<lparr>o_importe := suma_de_orden (o_nro_pedido orden) (items_orden dbw)\<rparr>"
    and d1: "db1 = dbw\<lparr>ordenes := guardar o_nro_pedido orden1 (ordenes dbw)\<rparr>" by simp_all
  have "importe_de db1 (o_nro_pedido orden1) = Some (o_importe orden1)"
    unfolding d1 by (rule importe_guardar)
  moreover have "suma_items db1 (i_pedido inst1) = o_importe orden1"
    using o1 d1 k by (simp add: suma_items_def)
  moreover have "o_nro_pedido orden1 = i_pedido inst1" using o1 k by simp
  ultimately show ?thesis by simp
qed

text \<open>A save that the database accepts and whose rows can be read back succeeds.\<close>

lemma item_save_ok:
  assumes ints: "entero_sqlite (i_nro_item inst)" "entero_sqlite (i_cantidad inst)"
      "entero_sqlite (i_estado inst)" "entero_sqlite (int (i_pedido inst))"
    and nonneg: "0 \<le> i_cantidad inst" "0 \<le> i_nro_item inst"
    and nuevo: "s_adding inst \<longrightarrow> buscar i_item_id (i_item_id inst) (items_orden db) = None"
    and fk: "buscar o_nro_pedido (i_pedido inst) (ordenes db) = Some orden"
      "buscar a_articulo_id (i_articulo inst) (articulos db) = Some a"
      "i_creado_por inst \<in> set (usuarios db)"
    and cache: "s_pedido inst = None"
    and legible: "orden_legible orden" "\<bar>i_precio_unitario inst\<bar> < 10 ^ 12"
      "\<bar>i_cantidad inst * i_precio_unitario inst\<bar> < 10 ^ 12"
      "list_all item_legible (filter (\<lambda>r. i_pedido r = i_pedido inst) (items_orden db))"
    and orden_ok: "entero_sqlite (o_estado orden)"
      "list_ex (\<lambda>r. o_pedido_id r = o_pedido_id orden \<and> o_nro_pedido r \<noteq> o_nro_pedido orden)
         (ordenes db) = False"
      "o_cliente orden \<in> set (clientes db)" "o_vendedor orden \<in> set (vendedores db)"
      "o_creado_por orden \<in> set (usuarios db)"
  shows "\<exists>orden1 db1. item_save db inst =
           (Inr (inst\<lparr>i_total_item := i_cantidad inst * i_precio_unitario inst,
                      s_adding := False, s_pedido := Some orden1\<rparr>), db1)"
proof -
  let ?c = "inst\<lparr>i_total_item := i_cantidad inst * i_precio_unitario inst\<rparr>"
  let ?dbw = "db\<lparr>items_orden := guardar i_item_id (fila_de ?c) (items_orden db)\<rparr>"
  have dup: "(s_adding inst \<and> list_ex (\<lambda>r. i_item_id r = i_item_id inst) (items_orden db)) = False"
    using nuevo buscar_None_list_ex [of i_item_id "i_item_id inst" "items_orden db"] by auto
  have w: "item_model_save db ?c = Inr ?dbw"
    unfolding item_model_save_def using ints nonneg fk dup by simp
  have k: "o_nro_pedido orden = i_pedido inst" using buscar_pk [OF fk(1)] .
  have p: "item_pedido ?dbw (?c\<lparr>s_adding := False\<rparr>) = Inr orden"
    unfolding item_pedido_def orden_get_def using cache fk(1) legible(1) by simp
  have rl: "item_legible (fila_de ?c)" unfolding item_legible_def using legible(2,3) by simp
  have l: "list_all item_legible (filter (\<lambda>r. i_pedido r = o_nro_pedido orden) (items_orden ?dbw))"
    using list_all_guardar [OF legible(4) rl] k by simp
  let ?o1 = "orden\<lparr>o_importe := sum_list (map i_total_item
       (filter (\<lambda>r. i_pedido r = o_nro_pedido orden) (items_orden ?dbw)))\<rparr>"
  have ow: "orden_model_save ?dbw ?o1
      = Inr (?dbw\<lparr>ordenes := guardar o_nro_pedido ?o1 (ordenes ?dbw)\<rparr>)"
    unfolding orden_model_save_def using orden_ok k ints(4) by simp
  have a: "actualizar_total ?dbw orden
      = Inr (?o1, ?dbw\<lparr>ordenes := guardar o_nro_pedido ?o1 (ordenes ?dbw)\<rparr>)"
    unfolding actualizar_total_def items_orden_compra_def Let_def using l ow by simp
  have "item_save db inst = (Inr (?c\<lparr>s_adding := False, s_pedido := Some ?o1\<rparr>),
          ?dbw\<lparr>ordenes := guardar o_nro_pedido ?o1 (ordenes ?dbw)\<rparr>)"
    unfolding item_save_def Let_def calcular_item_eq using w p a by simp
  then show ?thesis by blast
qed

text \<open>Saving again what a successful save returned changes nothing.\<close>

lemma item_save_idem:
  assumes "item_save db inst = (Inr inst1, db1)"
  shows "item_save db1 inst1 = (Inr inst1, db1)"
proof -
  obtain dbw orden orden1 where
    w: "item_model_save db (calcular_item db inst) = Inr dbw"
    and p: "item_pedido dbw ((calcular_item db inst)\<lparr>s_adding := False\<rparr>) = Inr orden"
    and a: "actualizar_total dbw orden = Inr (orden1, db1)"
    and i: "inst1 = (calcular_item db inst)\<lparr>s_adding := False, s_pedido := Some orden1\<rparr>"
    using item_save_Inr [OF assms] by blast
  let ?c = "calcular_item db inst"
  have dbw: "dbw = db\<lparr>items_orden := guardar i_item_id (fila_de ?c) (items_orden db)\<rparr>"
    using item_model_save_Inr [OF w] by simp
  have k: "o_nro_pedido orden = i_pedido inst" using item_pedido_pk [OF p] by (simp add: calcular_item_eq)
  from actualizar_total_Inr [OF a] have
    o1: "orden1 = orden\<lparr>o_importe := suma_de_orden (o_nro_pedido orden) (items_orden dbw)\<rparr>"
    and d1: "db1 = dbw\<lparr>ordenes := guardar o_nro_pedido orden1 (ordenes dbw)\<rparr>"
    and os: "orden_model_save dbw orden1 = Inr db1"
    and l: "list_all item_legible (filter (\<lambda>r. i_pedido r = o_nro_pedido orden) (items_orden dbw))"
    by blast+
  have k1: "o_nro_pedido orden1 = i_pedido inst" using o1 k by simp
  have calc: "calcular_item db1 inst1 = inst1" using i by (simp add: calcular_item_eq)
  have fila: "fila_de inst1 = fila_de ?c" using i by simp
  have items1: "items_orden db1 = guardar i_item_id (fila_de ?c) (items_orden db)"
    using d1 dbw by simp
  have ord1: "ordenes db1 = guardar o_nro_pedido orden1 (ordenes db)" using d1 dbw by simp
  have b1: "buscar o_nro_pedido (i_pedido inst1) (ordenes db1) = Some orden1"
    using buscar_guardar [of o_nro_pedido orden1 "ordenes db"] ord1 k1 i
    by (simp add: calcular_item_eq)
  have ms: "item_model_save db1 inst1 = Inr db1"
  proof -
    have "item_model_save db ?c = Inr dbw" by (rule w)
    then have c: "entero_sqlite (i_nro_item ?c) \<and> entero_sqlite (i_cantidad ?c)
         \<and> entero_sqlite (i_estado ?c) \<and> entero_sqlite (int (i_pedido ?c))"
      "0 \<le> i_cantidad ?c" "0 \<le> i_nro_item ?c"
      "buscar a_articulo_id (i_articulo ?c) (articulos db) \<noteq> None"
      "i_creado_por ?c \<in> set (usuarios db)"
      unfolding item_model_save_def by (auto split: if_splits)
    have same: "articulos db1 = articulos db" "usuarios db1 = usuarios db" using d1 dbw by simp_all
    have g: "guardar i_item_id (fila_de inst1) (items_orden db1) = items_orden db1"
      using items1 fila by (simp add: guardar_idem)
    show ?thesis unfolding item_model_save_def using c same b1 g i
      by (simp add: calcular_item_eq)
  qed
  have ip: "item_pedido db1 (inst1\<lparr>s_adding := False\<rparr>) = Inr orden1"
    unfolding item_pedido_def using i k1 by (simp add: calcular_item_eq)
  have l1: "list_all item_legible (filter (\<lambda>r. i_pedido r = o_nro_pedido orden1) (items_orden db1))"
    using l d1 o1 by simp
  have s1: "orden1\<lparr>o_importe := sum_list (map i_total_item
       (filter (\<lambda>r. i_pedido r = o_nro_pedido orden1) (items_orden db1)))\<rparr> = orden1"
    using o1 d1 by (simp add: suma_de_orden_filter)
  have os1: "orden_model_save db1 orden1 = Inr db1"
  proof -
    from os have c: "entero_sqlite (o_estado orden1) \<and> entero_sqlite (int (o_nro_pedido orden1))"
      "list_ex (\<lambda>r. o_pedido_id r = o_pedido_id orden1 \<and> o_nro_pedido r \<noteq> o_nro_pedido orden1)
         (ordenes dbw) = False"
      "o_cliente orden1 \<in> set (clientes dbw) \<and> o_vendedor orden1 \<in> set (vendedores dbw)
         \<and> o_creado_por orden1 \<in> set (usuarios dbw)"
      unfolding orden_model_save_def by (auto split: if_splits)
    have u: "list_ex (\<lambda>r. o_pedido_id r = o_pedido_id orden1 \<and> o_nro_pedido r \<noteq> o_nro_pedido orden1)
         (ordenes db1) = False"
      using list_ex_guardar
          [of "\<lambda>r. o_pedido_id r = o_pedido_id orden1 \<and> o_nro_pedido r \<noteq> o_nro_pedido orden1"
              o_nro_pedido orden1 "ordenes dbw"] c(2) d1
      by auto
    have g: "guardar o_nro_pedido orden1 (ordenes db1) = ordenes db1"
      using d1 by (simp add: guardar_idem)
    show ?thesis unfolding orden_model_save_def using c(1,3) u g d1 by simp
  qed
  have at: "actualizar_total db1 orden1 = Inr (orden1, db1)"
    unfolding actualizar_total_def items_orden_compra_def Let_def using l1 s1 os1 by simp
  have e: "inst1\<lparr>s_adding := False, s_pedido := Some orden1\<rparr> = inst1" using i by simp
  show ?thesis unfolding item_save_def Let_def using calc ms ip at e by simp
qed

text \<open>
  Saving an instance whose fields are those of its stored row, the total being
  the product of quantity and price, writes the rows of the items back as they
  were and sets the \<open>importe\<close> of its order to the sum over them.
\<close>

lemma item_save_fila_igual:
  assumes r: "buscar i_item_id (i_item_id inst) (items_orden db) = Some (fila_de inst)"
    and t: "i_total_item inst = i_cantidad inst * i_precio_unitario inst"
    and s: "item_save db inst = (Inr inst1, db1)"
  shows "items_orden db1 = items_orden db \<and> fila_de inst1 = fila_de inst
     \<and> importe_de db1 (i_pedido inst) = Some (suma_items db (i_pedido inst))"
proof -
  have c: "calcular_item db inst = inst" using t by (simp add: calcular_item_eq)
  obtain dbw orden orden1 where
    w: "item_model_save db (calcular_item db inst) = Inr dbw"
    and a: "actualizar_total dbw orden = Inr (orden1, db1)"
    and i: "inst1 = (calcular_item db inst)\<lparr>s_adding := False, s_pedido := Some orden1\<rparr>"
    using item_save_Inr [OF s] by blast
  have "guardar i_item_id (fila_de inst) (items_orden db) = items_orden db"
    using guardar_mismo [of i_item_id "fila_de inst" "items_orden db"] r by simp
  then have dbw: "items_orden dbw = items_orden db" using item_model_save_Inr [OF w] c by simp
  have d1: "items_orden db1 = items_orden dbw" using actualizar_total_Inr [OF a] by simp
  have it: "items_orden db1 = items_orden db" using d1 dbw by simp
  have f: "fila_de inst1 = fila_de inst" using i c by simp
  have "importe_de db1 (i_pedido inst1) = Some (suma_items db1 (i_pedido inst1))"
    by (rule item_save_importe [OF s])
  moreover have "i_pedido inst1 = i_pedido inst" using i c by simp
  ultimately have "importe_de db1 (i_pedido inst) = Some (suma_items db (i_pedido inst))"
    using it by (simp add: suma_items_def)
  with it f show ?thesis by simp
qed

text \<open>A save that raises has not touched the table of orders.\<close>

lemma item_save_Inl:
  "item_save db inst = (Inl e, db1) \<Longrightarrow> ordenes db1 = ordenes db"
  unfolding item_save_def Let_def
  by (auto split: sum.splits prod.splits dest: item_model_save_Inr)

text \<open>
  Three saves in the example database.  Two units at 5000000000.00 give a total
  of 13 digits: the row of the item is written, reading it back for the sum
  raises, and the \<open>importe\<close> of the order stays 0.  A new instance with the key of
  a stored item is refused.  An order instance attached to the item is the one
  \<open>actualizar_total\<close> saves, with its own \<open>notas\<close>, over the stored row.
\<close>

lemma item_save_total_ilegible:
  "item_save db_ejemplo (item_ej 101 2 500000000000 1) =
     (Inl InvalidOperation,
      db_ejemplo\<lparr>items_orden :=
        [fila_de ((item_ej 101 2 500000000000 1)\<lparr>i_total_item := 1000000000000\<rparr>)]\<rparr>)"
  by (simp add: db_defs item_ej_def item_defs Let_def)

lemma item_save_clave_repetida:
  "item_save (snd (item_save db_ejemplo (item_ej 101 1 500 1))) (item_ej 101 3 500 1)
     = (Inl IntegrityError, snd (item_save db_ejemplo (item_ej 101 1 500 1)))"
  by (simp add: db_defs item_ej_def item_defs Let_def)

lemma item_save_orden_adjunta:
  "ordenes (snd (item_save db_ejemplo
      ((item_ej 101 1 500 1)
         \<lparr>s_pedido := Some (orden_ej\<lparr>o_notas := Some ''x'', o_importe := 99\<rparr>)\<rparr>)))
   = [orden_ej\<lparr>o_notas := Some ''x'', o_importe := 500\<rparr>]"
  by (simp add: db_defs item_ej_def item_defs Let_def)

section \<open>Validation of a new article\<close>

lemma run_validation_campos:
  "errores_de_campos db d \<noteq> [] \<Longrightarrow>
   run_validation db d = Inl (ValidationError (errores_de_campos db d))"
  unfolding run_validation_def Let_def by simp

lemma crear_articulo_invalido:
  "run_validation db d = Inl e \<Longrightarrow> crear_articulo db k act d = (Inl e, db)"
  unfolding crear_articulo_def by simp

section \<open>Creating an article\<close>

text \<open>
  The call of \<open>create\<close> that inserts the price list passes one price out of six,
  so it is rejected for every input, and \<open>create\<close> never returns an article.
\<close>

lemma lista_precios_create_sin_precios:
  "lista_precios_create db k p1 None None None None None = Inl IntegrityError"
  unfolding lista_precios_create_def by (simp split: option.split)

lemma create_falla: "\<exists>e db1. create db k act d = (Inl e, db1)"
  unfolding create_def Let_def
  by (simp add: lista_precios_create_sin_precios split: option.split sum.split)

section \<open>The claims\<close>

subsection \<open>Order items\<close>

text \<open>
  C1.  The claim: saving an order item whose \<open>precio_unitario\<close> is zero, for an
  article whose price list has \<open>precio_1 = p\<close>, stores \<open>precio_unitario = p\<close> and
  \<open>total_item = cantidad * p\<close>.  The code does not do that.  Article 10 has a price
  list with \<open>precio_1\<close> 10.00; a new item of quantity 3 and price zero for it is
  saved without error, and the instance and the stored row keep \<open>precio_unitario\<close>
  0 and \<open>total_item\<close> 0, where the claim gives 10.00 and 30.00.
\<close>

theorem item_save_no_toma_precio_de_lista:
  "map_option lp_precio_1 (buscar lp_articulo 10 (lista_precios db_ejemplo)) = Some 1000
   \<and> fst (item_save db_ejemplo (item_ej 100 3 0 1))
       = Inr ((item_ej 100 3 0 1)\<lparr>s_adding := False, s_pedido := Some orden_ej\<rparr>)
   \<and> buscar i_item_id 100 (items_orden (snd (item_save db_ejemplo (item_ej 100 3 0 1))))
       = Some (fila_de (item_ej 100 3 0 1))
   \<and> i_precio_unitario (item_ej 100 3 0 1) = 0
   \<and> i_total_item (item_ej 100 3 0 1) = 0"
  by (simp add: db_defs item_ej_def item_defs Let_def)

text \<open>
  C2.  After a save of an order item that completes, whether it inserted the row
  or updated it, the stored row is the instance, with the quantity it was given
  and \<open>total_item = cantidad * precio_unitario\<close>, and the \<open>importe\<close> of the item's order is
  the sum of \<open>total_item\<close> over all stored rows of that order, with no regard to
  their \<open>estado\<close>.  The save completes when the database accepts the row of the
  item (its integers fit, quantity and item number are not negative, the key of
  a new instance is not stored yet, and its order, article and user are stored),
  the rows it reads can be read back (the order, none being attached to the
  instance, and the items of the order with the saved one) and the database
  accepts the row of the order.  A save that raises leaves the table of orders
  as it was.
\<close>

theorem item_save_importe_es_suma:
  "(item_save db inst = (Inr inst1, db1) \<longrightarrow>
      i_total_item inst1 = i_cantidad inst1 * i_precio_unitario inst1
      \<and> i_cantidad inst1 = i_cantidad inst
      \<and> (\<exists>r. buscar i_item_id (i_item_id inst) (items_orden db1) = Some r
            \<and> r = fila_de inst1
            \<and> i_pedido r = i_pedido inst \<and> i_cantidad r = i_cantidad inst
            \<and> i_precio_unitario r = i_precio_unitario inst1
            \<and> i_total_item r = i_cantidad r * i_precio_unitario r
            \<and> i_estado r = i_estado inst)
      \<and> importe_de db1 (i_pedido inst) = Some (suma_items db1 (i_pedido inst)))
   \<and> (- (2 ^ 63) \<le> i_nro_item inst \<and> i_nro_item inst < 2 ^ 63
       \<and> - (2 ^ 63) \<le> i_cantidad inst \<and> i_cantidad inst < 2 ^ 63
       \<and> - (2 ^ 63) \<le> i_estado inst \<and> i_estado inst < 2 ^ 63
       \<and> int (i_pedido inst) < 2 ^ 63
       \<and> 0 \<le> i_cantidad inst \<and> 0 \<le> i_nro_item inst
       \<and> (s_adding inst \<longrightarrow>
            buscar i_item_id (i_item_id inst) (items_orden db) = None)
       \<and> buscar o_nro_pedido (i_pedido inst) (ordenes db) = Some orden
       \<and> buscar a_articulo_id (i_articulo inst) (articulos db) = Some a
       \<and> i_creado_por inst \<in> set (usuarios db)
       \<and> s_pedido inst = None
       \<and> \<bar>o_importe orden\<bar> < 10 ^ 10
       \<and> \<bar>i_precio_unitario inst\<bar> < 10 ^ 12
       \<and> \<bar>i_cantidad inst * i_precio_unitario inst\<bar> < 10 ^ 12
       \<and> list_all (\<lambda>r. \<bar>i_precio_unitario r\<bar> < 10 ^ 12 \<and> \<bar>i_total_item r\<bar> < 10 ^ 12)
            (filter (\<lambda>r. i_pedido r = i_pedido inst) (items_orden db))
       \<and> - (2 ^ 63) \<le> o_estado orden \<and> o_estado orden < 2 ^ 63
       \<and> list_ex (\<lambda>r. o_pedido_id r = o_pedido_id orden \<and> o_nro_pedido r \<noteq> o_nro_pedido orden)
            (ordenes db) = False
       \<and> o_cliente orden \<in> set (clientes db)
       \<and> o_vendedor orden \<in> set (vendedores db)
       \<and> o_creado_por orden \<in> set (usuarios db)
      \<longrightarrow> (\<exists>inst1 db1. item_save db inst = (Inr inst1, db1)))
   \<and> (item_save db inst = (Inl e, db2) \<longrightarrow> ordenes db2 = ordenes db)"
proof -
  have A: "item_save db inst = (Inr inst1, db1) \<longrightarrow>
      i_total_item inst1 = i_cantidad inst1 * i_precio_unitario inst1
      \<and> i_cantidad inst1 = i_cantidad inst
      \<and> (\<exists>r. buscar i_item_id (i_item_id inst) (items_orden db1) = Some r
            \<and> r = fila_de inst1
            \<and> i_pedido r = i_pedido inst \<and> i_cantidad r = i_cantidad inst
            \<and> i_precio_unitario r = i_precio_unitario inst1
            \<and> i_total_item r = i_cantidad r * i_precio_unitario r
            \<and> i_estado r = i_estado inst)
      \<and> importe_de db1 (i_pedido inst) = Some (suma_items db1 (i_pedido inst))"
  proof
    assume s: "item_save db inst = (Inr inst1, db1)"
    obtain dbw orden' orden1 where
      w: "item_model_save db (calcular_item db inst) = Inr dbw"
      and a: "actualizar_total dbw orden' = Inr (orden1, db1)"
      and i: "inst1 = (calcular_item db inst)\<lparr>s_adding := False, s_pedido := Some orden1\<rparr>"
      using item_save_Inr [OF s] by blast
    have t: "i_total_item inst1 = i_cantidad inst1 * i_precio_unitario inst1"
      and p: "i_pedido inst1 = i_pedido inst" and k: "i_item_id inst1 = i_item_id inst"
      and q: "i_cantidad inst1 = i_cantidad inst" and u: "i_estado inst1 = i_estado inst"
      and f: "fila_de inst1 = fila_de (calcular_item db inst)"
      using i by (simp_all add: calcular_item_eq)
    have "items_orden db1 = guardar i_item_id (fila_de (calcular_item db inst)) (items_orden db)"
      using item_model_save_Inr [OF w] actualizar_total_Inr [OF a] by simp
    then have b: "buscar i_item_id (i_item_id inst) (items_orden db1) = Some (fila_de inst1)"
      using buscar_guardar [of i_item_id "fila_de inst1" "items_orden db"] f k
      by (simp add: calcular_item_eq)
    have "importe_de db1 (i_pedido inst) = Some (suma_items db1 (i_pedido inst))"
      using item_save_importe [OF s] p by simp
    with t b p q u show "i_total_item inst1 = i_cantidad inst1 * i_precio_unitario inst1
      \<and> i_cantidad inst1 = i_cantidad inst
      \<and> (\<exists>r. buscar i_item_id (i_item_id inst) (items_orden db1) = Some r
            \<and> r = fila_de inst1
            \<and> i_pedido r = i_pedido inst \<and> i_cantidad r = i_cantidad inst
            \<and> i_precio_unitario r = i_precio_unitario inst1
            \<and> i_total_item r = i_cantidad r * i_precio_unitario r
            \<and> i_estado r = i_estado inst)
      \<and> importe_de db1 (i_pedido inst) = Some (suma_items db1 (i_pedido inst))"
      by simp
  qed
  have B: "- (2 ^ 63) \<le> i_nro_item inst \<and> i_nro_item inst < 2 ^ 63
       \<and> - (2 ^ 63) \<le> i_cantidad inst \<and> i_cantidad inst < 2 ^ 63
       \<and> - (2 ^ 63) \<le> i_estado inst \<and> i_estado inst < 2 ^ 63
       \<and> int (i_pedido inst) < 2 ^ 63
       \<and> 0 \<le> i_cantidad inst \<and> 0 \<le> i_nro_item inst
       \<and> (s_adding inst \<longrightarrow>
            buscar i_item_id (i_item_id inst) (items_orden db) = None)
       \<and> buscar o_nro_pedido (i_pedido inst) (ordenes db) = Some orden
       \<and> buscar a_articulo_id (i_articulo inst) (articulos db) = Some a
       \<and> i_creado_por inst \<in> set (usuarios db)
       \<and> s_pedido inst = None
       \<and> \<bar>o_importe orden\<bar> < 10 ^ 10
       \<and> \<bar>i_precio_unitario inst\<bar> < 10 ^ 12
       \<and> \<bar>i_cantidad inst * i_precio_unitario inst\<bar> < 10 ^ 12
       \<and> list_all (\<lambda>r. \<bar>i_precio_unitario r\<bar> < 10 ^ 12 \<and> \<bar>i_total_item r\<bar> < 10 ^ 12)
            (filter (\<lambda>r. i_pedido r = i_pedido inst) (items_orden db))
       \<and> - (2 ^ 63) \<le> o_estado orden \<and> o_estado orden < 2 ^ 63
       \<and> list_ex (\<lambda>r. o_pedido_id r = o_pedido_id orden \<and> o_nro_pedido r \<noteq> o_nro_pedido orden)
            (ordenes db) = False
       \<and> o_cliente orden \<in> set (clientes db)
       \<and> o_vendedor orden \<in> set (vendedores db)
       \<and> o_creado_por orden \<in> set (usuarios db)
      \<longrightarrow> (\<exists>inst1 db1. item_save db inst = (Inr inst1, db1))"
  proof
    assume h: "- (2 ^ 63) \<le> i_nro_item inst \<and> i_nro_item inst < 2 ^ 63
       \<and> - (2 ^ 63) \<le> i_cantidad inst \<and> i_cantidad inst < 2 ^ 63
       \<and> - (2 ^ 63) \<le> i_estado inst \<and> i_estado inst < 2 ^ 63
       \<and> int (i_pedido inst) < 2 ^ 63
       \<and> 0 \<le> i_cantidad inst \<and> 0 \<le> i_nro_item inst
       \<and> (s_adding inst \<longrightarrow>
            buscar i_item_id (i_item_id inst) (items_orden db) = None)
       \<and> buscar o_nro_pedido (i_pedido inst) (ordenes db) = Some orden
       \<and> buscar a_articulo_id (i_articulo inst) (articulos db) = Some a
       \<and> i_creado_por inst \<in> set (usuarios db)
       \<and> s_pedido inst = None
       \<and> \<bar>o_importe orden\<bar> < 10 ^ 10
       \<and> \<bar>i_precio_unitario inst\<bar> < 10 ^ 12
       \<and> \<bar>i_cantidad inst * i_precio_unitario inst\<bar> < 10 ^ 12
       \<and> list_all (\<lambda>r. \<bar>i_precio_unitario r\<bar> < 10 ^ 12 \<and> \<bar>i_total_item r\<bar> < 10 ^ 12)
            (filter (\<lambda>r. i_pedido r = i_pedido inst) (items_orden db))
       \<and> - (2 ^ 63) \<le> o_estado orden \<and> o_estado orden < 2 ^ 63
       \<and> list_ex (\<lambda>r. o_pedido_id r = o_pedido_id orden \<and> o_nro_pedido r \<noteq> o_nro_pedido orden)
            (ordenes db) = False
       \<and> o_cliente orden \<in> set (clientes db)
       \<and> o_vendedor orden \<in> set (vendedores db)
       \<and> o_creado_por orden \<in> set (usuarios db)"
    then have "\<exists>orden1 db1. item_save db inst =
           (Inr (inst\<lparr>i_total_item := i_cantidad inst * i_precio_unitario inst,
                      s_adding := False, s_pedido := Some orden1\<rparr>), db1)"
      by (intro item_save_ok [of inst db orden a])
        (simp_all add: entero_sqlite_def orden_legible_def item_legible_def list_all_iff)
    then show "\<exists>inst1 db1. item_save db inst = (Inr inst1, db1)" by blast
  qed
  have C: "item_save db inst = (Inl e, db2) \<longrightarrow> ordenes db2 = ordenes db"
    using item_save_Inl by blast
  from A B C show ?thesis by blast
qed

text \<open>
  The example of C2: order 7 starts without items and with \<open>importe\<close> 0; new items
  with totals 5.00, 7.50 (three at 2.50, with another \<open>estado\<close> than the rest) and
  2.50 are added one after the other, and the \<open>importe\<close> is 5.00, then 12.50, then
  15.00.  A save that updates a stored item recomputes it as well: with the item
  of 5.00 loaded and saved at quantity 3, the \<open>importe\<close> is 15.00.
\<close>

theorem item_save_importe_es_suma_witness:
  "importe_de db_ejemplo 7 = Some 0
   \<and> importe_de (snd (item_save db_ejemplo (item_ej 101 1 500 1))) 7 = Some 500
   \<and> importe_de (snd (item_save (snd (item_save db_ejemplo (item_ej 101 1 500 1)))
        (item_ej 102 3 250 0))) 7 = Some 1250
   \<and> importe_de (snd (item_save (snd (item_save (snd (item_save db_ejemplo (item_ej 101 1 500 1)))
        (item_ej 102 3 250 0))) (item_ej 103 1 250 1))) 7 = Some 1500
   \<and> item_get (snd (item_save db_ejemplo (item_ej 101 1 500 1))) 101
       = Inr (item_cargado 101 1 500 1)
   \<and> importe_de (snd (item_save (snd (item_save db_ejemplo (item_ej 101 1 500 1)))
        ((item_cargado 101 1 500 1)\<lparr>i_cantidad := 3\<rparr>))) 7 = Some 1500
   \<and> (\<exists>inst1 db1. item_save db_ejemplo (item_ej 101 1 500 1) = (Inr inst1, db1)
         \<and> importe_de db1 7 = Some (suma_items db1 7))"
proof -
  have h: "- (2 ^ 63) \<le> i_nro_item (item_ej 101 1 500 1) \<and> i_nro_item (item_ej 101 1 500 1) < 2 ^ 63
       \<and> - (2 ^ 63) \<le> i_cantidad (item_ej 101 1 500 1) \<and> i_cantidad (item_ej 101 1 500 1) < 2 ^ 63
       \<and> - (2 ^ 63) \<le> i_estado (item_ej 101 1 500 1) \<and> i_estado (item_ej 101 1 500 1) < 2 ^ 63
       \<and> int (i_pedido (item_ej 101 1 500 1)) < 2 ^ 63
       \<and> 0 \<le> i_cantidad (item_ej 101 1 500 1) \<and> 0 \<le> i_nro_item (item_ej 101 1 500 1)
       \<and> (s_adding (item_ej 101 1 500 1) \<longrightarrow>
            buscar i_item_id (i_item_id (item_ej 101 1 500 1)) (items_orden db_ejemplo) = None)
       \<and> buscar o_nro_pedido (i_pedido (item_ej 101 1 500 1)) (ordenes db_ejemplo) = Some orden_ej
       \<and> buscar a_articulo_id (i_articulo (item_ej 101 1 500 1)) (articulos db_ejemplo) = Some articulo_ej
       \<and> i_creado_por (item_ej 101 1 500 1) \<in> set (usuarios db_ejemplo)
       \<and> s_pedido (item_ej 101 1 500 1) = None
       \<and> \<bar>o_importe orden_ej\<bar> < 10 ^ 10
       \<and> \<bar>i_precio_unitario (item_ej 101 1 500 1)\<bar> < 10 ^ 12
       \<and> \<bar>i_cantidad (item_ej 101 1 500 1) * i_precio_unitario (item_ej 101 1 500 1)\<bar> < 10 ^ 12
       \<and> list_all (\<lambda>r. \<bar>i_precio_unitario r\<bar> < 10 ^ 12 \<and> \<bar>i_total_item r\<bar> < 10 ^ 12)
            (filter (\<lambda>r. i_pedido r = i_pedido (item_ej 101 1 500 1)) (items_orden db_ejemplo))
       \<and> - (2 ^ 63) \<le> o_estado orden_ej \<and> o_estado orden_ej < 2 ^ 63
       \<and> list_ex (\<lambda>r. o_pedido_id r = o_pedido_id orden_ej \<and> o_nro_pedido r \<noteq> o_nro_pedido orden_ej)
            (ordenes db_ejemplo) = False
       \<and> o_cliente orden_ej \<in> set (clientes db_ejemplo)
       \<and> o_vendedor orden_ej \<in> set (vendedores db_ejemplo)
       \<and> o_creado_por orden_ej \<in> set (usuarios db_ejemplo)"
    by (simp add: db_defs item_ej_def buscar_def)
  have p: "i_pedido (item_ej 101 1 500 1) = 7" by (simp add: item_ej_def)
  have a: "importe_de db_ejemplo 7 = Some 0" by (simp add: db_defs item_defs)
  have b: "importe_de (snd (item_save db_ejemplo (item_ej 101 1 500 1))) 7 = Some 500"
    by (simp add: db_defs item_ej_def item_defs Let_def)
  have c: "importe_de (snd (item_save (snd (item_save db_ejemplo (item_ej 101 1 500 1)))
        (item_ej 102 3 250 0))) 7 = Some 1250"
    by (simp add: db_defs item_ej_def item_defs Let_def)
  have d: "importe_de (snd (item_save (snd (item_save (snd (item_save db_ejemplo
        (item_ej 101 1 500 1))) (item_ej 102 3 250 0))) (item_ej 103 1 250 1))) 7 = Some 1500"
    by (simp add: db_defs item_ej_def item_defs Let_def)
  have g: "item_get (snd (item_save db_ejemplo (item_ej 101 1 500 1))) 101
       = Inr (item_cargado 101 1 500 1)"
    by (simp add: db_defs item_ej_def item_cargado_def item_defs Let_def)
  have e: "importe_de (snd (item_save (snd (item_save db_ejemplo (item_ej 101 1 500 1)))
        ((item_cargado 101 1 500 1)\<lparr>i_cantidad := 3\<rparr>))) 7 = Some 1500"
    by (simp add: db_defs item_ej_def item_cargado_def item_defs Let_def)
  have "\<exists>inst1 db1. item_save db_ejemplo (item_ej 101 1 500 1) = (Inr inst1, db1)"
    using item_save_importe_es_suma
      [of db_ejemplo "item_ej 101 1 500 1" _ _ orden_ej articulo_ej, THEN conjunct2, THEN conjunct1]
      h
    by (rule mp)
  then obtain inst1 db1 where
    s: "item_save db_ejemplo (item_ej 101 1 500 1) = (Inr inst1, db1)" by blast
  have "importe_de db1 7 = Some (suma_items db1 7)"
    using item_save_importe_es_suma
      [of db_ejemplo "item_ej 101 1 500 1" inst1 db1, THEN conjunct1] s p
    by auto
  with s a b c d g e show ?thesis by blast
qed

text \<open>
  C7.  The claim: an attempt to save an order item with quantity 0 is rejected.
  It is not: \<open>cantidad\<close> is a PositiveIntegerField, whose check is \<open>>= 0\<close>, and
  nothing else in the sources looks at the quantity.  A new item with quantity 0
  is saved and its row is stored.
\<close>

theorem item_save_cantidad_cero:
  "i_cantidad (item_ej 100 0 250 1) = 0
   \<and> fst (item_save db_ejemplo (item_ej 100 0 250 1))
       = Inr ((item_ej 100 0 250 1)\<lparr>s_adding := False, s_pedido := Some orden_ej\<rparr>)
   \<and> buscar i_item_id 100 (items_orden (snd (item_save db_ejemplo (item_ej 100 0 250 1))))
       = Some (fila_de (item_ej 100 0 250 1))"
  by (simp add: db_defs item_ej_def item_defs Let_def)

text \<open>
  C7, as the code has it.  Every order item stored by a save has a quantity that
  is not negative: a save with a quantity below zero is rejected and writes
  nothing (with an \<open>IntegrityError\<close> when the integers of the row fit in 64 bits), a
  save that completes stores an instance with \<open>0 \<le> cantidad\<close>, and a save with
  quantity 0 that meets the conditions of C2 completes, with \<open>total_item\<close> 0.
\<close>

theorem item_save_cantidad_no_negativa:
  "(i_cantidad inst < 0 \<longrightarrow>
      (\<exists>e. item_save db inst = (Inl e, db))
      \<and> (- (2 ^ 63) \<le> i_nro_item inst \<and> i_nro_item inst < 2 ^ 63
          \<and> - (2 ^ 63) \<le> i_cantidad inst \<and> i_cantidad inst < 2 ^ 63
          \<and> - (2 ^ 63) \<le> i_estado inst \<and> i_estado inst < 2 ^ 63
          \<and> int (i_pedido inst) < 2 ^ 63
         \<longrightarrow> item_save db inst = (Inl IntegrityError, db)))
   \<and> (item_save db inst = (Inr inst1, db1) \<longrightarrow>
        0 \<le> i_cantidad inst1
        \<and> buscar i_item_id (i_item_id inst1) (items_orden db1) = Some (fila_de inst1))
   \<and> (i_cantidad inst = 0
       \<and> - (2 ^ 63) \<le> i_nro_item inst \<and> i_nro_item inst < 2 ^ 63
       \<and> - (2 ^ 63) \<le> i_estado inst \<and> i_estado inst < 2 ^ 63
       \<and> int (i_pedido inst) < 2 ^ 63
       \<and> 0 \<le> i_nro_item inst
       \<and> (s_adding inst \<longrightarrow>
            buscar i_item_id (i_item_id inst) (items_orden db) = None)
       \<and> buscar o_nro_pedido (i_pedido inst) (ordenes db) = Some orden
       \<and> buscar a_articulo_id (i_articulo inst) (articulos db) = Some a
       \<and> i_creado_por inst \<in> set (usuarios db)
       \<and> s_pedido inst = None
       \<and> \<bar>o_importe orden\<bar> < 10 ^ 10
       \<and> \<bar>i_precio_unitario inst\<bar> < 10 ^ 12
       \<and> list_all (\<lambda>r. \<bar>i_precio_unitario r\<bar> < 10 ^ 12 \<and> \<bar>i_total_item r\<bar> < 10 ^ 12)
            (filter (\<lambda>r. i_pedido r = i_pedido inst) (items_orden db))
       \<and> - (2 ^ 63) \<le> o_estado orden \<and> o_estado orden < 2 ^ 63
       \<and> list_ex (\<lambda>r. o_pedido_id r = o_pedido_id orden \<and> o_nro_pedido r \<noteq> o_nro_pedido orden)
            (ordenes db) = False
       \<and> o_cliente orden \<in> set (clientes db)
       \<and> o_vendedor orden \<in> set (vendedores db)
       \<and> o_creado_por orden \<in> set (usuarios db)
      \<longrightarrow> (\<exists>orden1 db1. item_save db inst =
             (Inr (inst\<lparr>i_total_item := 0, s_adding := False, s_pedido := Some orden1\<rparr>), db1)))"
proof -
  have neg: "i_cantidad inst < 0 \<longrightarrow>
      (\<exists>e. item_save db inst = (Inl e, db))
      \<and> (- (2 ^ 63) \<le> i_nro_item inst \<and> i_nro_item inst < 2 ^ 63
          \<and> - (2 ^ 63) \<le> i_cantidad inst \<and> i_cantidad inst < 2 ^ 63
          \<and> - (2 ^ 63) \<le> i_estado inst \<and> i_estado inst < 2 ^ 63
          \<and> int (i_pedido inst) < 2 ^ 63
         \<longrightarrow> item_save db inst = (Inl IntegrityError, db))"
  proof
    assume n: "i_cantidad inst < 0"
    let ?c = "inst\<lparr>i_total_item := i_cantidad inst * i_precio_unitario inst\<rparr>"
    have 1: "- (2 ^ 63) \<le> i_nro_item inst \<and> i_nro_item inst < 2 ^ 63
          \<and> - (2 ^ 63) \<le> i_cantidad inst \<and> i_cantidad inst < 2 ^ 63
          \<and> - (2 ^ 63) \<le> i_estado inst \<and> i_estado inst < 2 ^ 63
          \<and> int (i_pedido inst) < 2 ^ 63
         \<longrightarrow> item_model_save db ?c = Inl IntegrityError"
      unfolding item_model_save_def entero_sqlite_def using n by simp
    have 2: "\<exists>e. item_model_save db ?c = Inl e"
      unfolding item_model_save_def using n by simp
    show "(\<exists>e. item_save db inst = (Inl e, db))
      \<and> (- (2 ^ 63) \<le> i_nro_item inst \<and> i_nro_item inst < 2 ^ 63
          \<and> - (2 ^ 63) \<le> i_cantidad inst \<and> i_cantidad inst < 2 ^ 63
          \<and> - (2 ^ 63) \<le> i_estado inst \<and> i_estado inst < 2 ^ 63
          \<and> int (i_pedido inst) < 2 ^ 63
         \<longrightarrow> item_save db inst = (Inl IntegrityError, db))"
      using 1 2 unfolding item_save_def Let_def calcular_item_eq by auto
  qed
  have pers: "item_save db inst = (Inr inst1, db1) \<longrightarrow>
        0 \<le> i_cantidad inst1
        \<and> buscar i_item_id (i_item_id inst1) (items_orden db1) = Some (fila_de inst1)"
  proof
    assume s: "item_save db inst = (Inr inst1, db1)"
    obtain dbw orden' orden1 where
      w: "item_model_save db (calcular_item db inst) = Inr dbw"
      and a: "actualizar_total dbw orden' = Inr (orden1, db1)"
      and i: "inst1 = (calcular_item db inst)\<lparr>s_adding := False, s_pedido := Some orden1\<rparr>"
      using item_save_Inr [OF s] by blast
    have c: "0 \<le> i_cantidad inst1" using item_model_save_Inr [OF w] i by simp
    have "items_orden db1 = guardar i_item_id (fila_de inst1) (items_orden db)"
      using item_model_save_Inr [OF w] actualizar_total_Inr [OF a] i by simp
    then have "buscar i_item_id (i_item_id inst1) (items_orden db1) = Some (fila_de inst1)"
      using buscar_guardar [of i_item_id "fila_de inst1" "items_orden db"] by simp
    with c show "0 \<le> i_cantidad inst1
        \<and> buscar i_item_id (i_item_id inst1) (items_orden db1) = Some (fila_de inst1)" by simp
  qed
  have cero: "i_cantidad inst = 0
       \<and> - (2 ^ 63) \<le> i_nro_item inst \<and> i_nro_item inst < 2 ^ 63
       \<and> - (2 ^ 63) \<le> i_estado inst \<and> i_estado inst < 2 ^ 63
       \<and> int (i_pedido inst) < 2 ^ 63
       \<and> 0 \<le> i_nro_item inst
       \<and> (s_adding inst \<longrightarrow>
            buscar i_item_id (i_item_id inst) (items_orden db) = None)
       \<and> buscar o_nro_pedido (i_pedido inst) (ordenes db) = Some orden
       \<and> buscar a_articulo_id (i_articulo inst) (articulos db) = Some a
       \<and> i_creado_por inst \<in> set (usuarios db)
       \<and> s_pedido inst = None
       \<and> \<bar>o_importe orden\<bar> < 10 ^ 10
       \<and> \<bar>i_precio_unitario inst\<bar> < 10 ^ 12
       \<and> list_all (\<lambda>r. \<bar>i_precio_unitario r\<bar> < 10 ^ 12 \<and> \<bar>i_total_item r\<bar> < 10 ^ 12)
            (filter (\<lambda>r. i_pedido r = i_pedido inst) (items_orden db))
       \<and> - (2 ^ 63) \<le> o_estado orden \<and> o_estado orden < 2 ^ 63
       \<and> list_ex (\<lambda>r. o_pedido_id r = o_pedido_id orden \<and> o_nro_pedido r \<noteq> o_nro_pedido orden)
            (ordenes db) = False
       \<and> o_cliente orden \<in> set (clientes db)
       \<and> o_vendedor orden \<in> set (vendedores db)
       \<and> o_creado_por orden \<in> set (usuarios db)
      \<longrightarrow> (\<exists>orden1 db1. item_save db inst =
             (Inr (inst\<lparr>i_total_item := 0, s_adding := False, s_pedido := Some orden1\<rparr>), db1))"
  proof
    assume h: "i_cantidad inst = 0
       \<and> - (2 ^ 63) \<le> i_nro_item inst \<and> i_nro_item inst < 2 ^ 63
       \<and> - (2 ^ 63) \<le> i_estado inst \<and> i_estado inst < 2 ^ 63
       \<and> int (i_pedido inst) < 2 ^ 63
       \<and> 0 \<le> i_nro_item inst
       \<and> (s_adding inst \<longrightarrow>
            buscar i_item_id (i_item_id inst) (items_orden db) = None)
       \<and> buscar o_nro_pedido (i_pedido inst) (ordenes db) = Some orden
       \<and> buscar a_articulo_id (i_articulo inst) (articulos db) = Some a
       \<and> i_creado_por inst \<in> set (usuarios db)
       \<and> s_pedido inst = None
       \<and> \<bar>o_importe orden\<bar> < 10 ^ 10
       \<and> \<bar>i_precio_unitario inst\<bar> < 10 ^ 12
       \<and> list_all (\<lambda>r. \<bar>i_precio_unitario r\<bar> < 10 ^ 12 \<and> \<bar>i_total_item r\<bar> < 10 ^ 12)
            (filter (\<lambda>r. i_pedido r = i_pedido inst) (items_orden db))
       \<and> - (2 ^ 63) \<le> o_estado orden \<and> o_estado orden < 2 ^ 63
       \<and> list_ex (\<lambda>r. o_pedido_id r = o_pedido_id orden \<and> o_nro_pedido r \<noteq> o_nro_pedido orden)
            (ordenes db) = False
       \<and> o_cliente orden \<in> set (clientes db)
       \<and> o_vendedor orden \<in> set (vendedores db)
       \<and> o_creado_por orden \<in> set (usuarios db)"
    then have "\<exists>orden1 db1. item_save db inst =
           (Inr (inst\<lparr>i_total_item := i_cantidad inst * i_precio_unitario inst,
                      s_adding := False, s_pedido := Some orden1\<rparr>), db1)"
      by (intro item_save_ok [of inst db orden a])
        (simp_all add: entero_sqlite_def orden_legible_def item_legible_def list_all_iff)
    then show "\<exists>orden1 db1. item_save db inst =
             (Inr (inst\<lparr>i_total_item := 0, s_adding := False, s_pedido := Some orden1\<rparr>), db1)"
      using h by simp
  qed
  from neg pers cero show ?thesis by blast
qed

text \<open>
  In the example database, quantity \<open>-1\<close> is rejected and quantity 0 is stored.
\<close>

theorem item_save_cantidad_no_negativa_witness:
  "item_save db_ejemplo (item_ej 104 (- 1) 250 1) = (Inl IntegrityError, db_ejemplo)
   \<and> (\<exists>orden1 db1. item_save db_ejemplo (item_ej 104 0 250 1)
          = (Inr ((item_ej 104 0 250 1)\<lparr>s_adding := False, s_pedido := Some orden1\<rparr>), db1)
         \<and> buscar i_item_id 104 (items_orden db1) = Some (fila_de (item_ej 104 0 250 1)))"
proof -
  have n: "i_cantidad (item_ej 104 (- 1) 250 1) < 0" by (simp add: item_ej_def)
  have m: "- (2 ^ 63) \<le> i_nro_item (item_ej 104 (- 1) 250 1) \<and> i_nro_item (item_ej 104 (- 1) 250 1) < 2 ^ 63
      \<and> - (2 ^ 63) \<le> i_cantidad (item_ej 104 (- 1) 250 1) \<and> i_cantidad (item_ej 104 (- 1) 250 1) < 2 ^ 63
      \<and> - (2 ^ 63) \<le> i_estado (item_ej 104 (- 1) 250 1) \<and> i_estado (item_ej 104 (- 1) 250 1) < 2 ^ 63
      \<and> int (i_pedido (item_ej 104 (- 1) 250 1)) < 2 ^ 63"
    by (simp add: item_ej_def)
  have z: "i_cantidad (item_ej 104 0 250 1) = 0
       \<and> - (2 ^ 63) \<le> i_nro_item (item_ej 104 0 250 1) \<and> i_nro_item (item_ej 104 0 250 1) < 2 ^ 63
       \<and> - (2 ^ 63) \<le> i_estado (item_ej 104 0 250 1) \<and> i_estado (item_ej 104 0 250 1) < 2 ^ 63
       \<and> int (i_pedido (item_ej 104 0 250 1)) < 2 ^ 63
       \<and> 0 \<le> i_nro_item (item_ej 104 0 250 1)
       \<and> (s_adding (item_ej 104 0 250 1) \<longrightarrow>
            buscar i_item_id (i_item_id (item_ej 104 0 250 1)) (items_orden db_ejemplo) = None)
       \<and> buscar o_nro_pedido (i_pedido (item_ej 104 0 250 1)) (ordenes db_ejemplo) = Some orden_ej
       \<and> buscar a_articulo_id (i_articulo (item_ej 104 0 250 1)) (articulos db_ejemplo) = Some articulo_ej
       \<and> i_creado_por (item_ej 104 0 250 1) \<in> set (usuarios db_ejemplo)
       \<and> s_pedido (item_ej 104 0 250 1) = None
       \<and> \<bar>o_importe orden_ej\<bar> < 10 ^ 10
       \<and> \<bar>i_precio_unitario (item_ej 104 0 250 1)\<bar> < 10 ^ 12
       \<and> list_all (\<lambda>r. \<bar>i_precio_unitario r\<bar> < 10 ^ 12 \<and> \<bar>i_total_item r\<bar> < 10 ^ 12)
            (filter (\<lambda>r. i_pedido r = i_pedido (item_ej 104 0 250 1)) (items_orden db_ejemplo))
       \<and> - (2 ^ 63) \<le> o_estado orden_ej \<and> o_estado orden_ej < 2 ^ 63
       \<and> list_ex (\<lambda>r. o_pedido_id r = o_pedido_id orden_ej \<and> o_nro_pedido r \<noteq> o_nro_pedido orden_ej)
            (ordenes db_ejemplo) = False
       \<and> o_cliente orden_ej \<in> set (clientes db_ejemplo)
       \<and> o_vendedor orden_ej \<in> set (vendedores db_ejemplo)
       \<and> o_creado_por orden_ej \<in> set (usuarios db_ejemplo)"
    by (simp add: db_defs item_ej_def buscar_def)
  have e: "(item_ej 104 0 250 1)\<lparr>i_total_item := 0\<rparr> = item_ej 104 0 250 1"
    and k: "i_item_id (item_ej 104 0 250 1) = 104"
    by (simp_all add: item_ej_def)
  have a: "item_save db_ejemplo (item_ej 104 (- 1) 250 1) = (Inl IntegrityError, db_ejemplo)"
    using item_save_cantidad_no_negativa [of "item_ej 104 (- 1) 250 1" db_ejemplo] n m by blast
  have "\<exists>orden1 db1. item_save db_ejemplo (item_ej 104 0 250 1)
          = (Inr ((item_ej 104 0 250 1)\<lparr>i_total_item := 0, s_adding := False,
                     s_pedido := Some orden1\<rparr>), db1)"
    using item_save_cantidad_no_negativa
      [of "item_ej 104 0 250 1" db_ejemplo _ _ orden_ej articulo_ej, THEN conjunct2, THEN conjunct2]
      z
    by (rule mp)
  then obtain orden1 db1 where
    s: "item_save db_ejemplo (item_ej 104 0 250 1)
          = (Inr ((item_ej 104 0 250 1)\<lparr>s_adding := False, s_pedido := Some orden1\<rparr>), db1)"
    unfolding e by blast
  have "0 \<le> i_cantidad ((item_ej 104 0 250 1)\<lparr>s_adding := False, s_pedido := Some orden1\<rparr>)
      \<and> buscar i_item_id
           (i_item_id ((item_ej 104 0 250 1)\<lparr>s_adding := False, s_pedido := Some orden1\<rparr>))
           (items_orden db1)
         = Some (fila_de ((item_ej 104 0 250 1)\<lparr>s_adding := False, s_pedido := Some orden1\<rparr>))"
    using item_save_cantidad_no_negativa
      [of "item_ej 104 0 250 1" db_ejemplo
          "(item_ej 104 0 250 1)\<lparr>s_adding := False, s_pedido := Some orden1\<rparr>" db1,
       THEN conjunct2, THEN conjunct1] s
    by (rule mp)
  then have "buscar i_item_id 104 (items_orden db1) = Some (fila_de (item_ej 104 0 250 1))"
    using k by simp
  with a s show ?thesis by blast
qed

text \<open>
  C8.  The claim: saving an existing order item again, with quantity and unit
  price unchanged, leaves the \<open>importe\<close> of its order as it was.  It does not when
  the stored \<open>importe\<close> is not the sum over the items of the order.  Order 7 holds
  items of 5.00 and 7.50 and has \<open>importe\<close> 12.50; the item of 7.50 is deleted, which
  leaves the \<open>importe\<close> at 12.50; the item of 5.00 is loaded and saved as it is, its
  total stays 5.00, and the \<open>importe\<close> becomes 5.00.
\<close>

theorem item_save_sin_cambios_cambia_importe:
  "item_get (item_delete db_dos_items 102) 101 = Inr (item_cargado 101 1 500 1)
   \<and> importe_de (item_delete db_dos_items 102) 7 = Some 1250
   \<and> fst (item_save (item_delete db_dos_items 102) (item_cargado 101 1 500 1))
       = Inr ((item_cargado 101 1 500 1)\<lparr>s_pedido := Some (orden_ej\<lparr>o_importe := 500\<rparr>)\<rparr>)
   \<and> i_total_item (item_cargado 101 1 500 1) = 500
   \<and> importe_de (snd (item_save (item_delete db_dos_items 102) (item_cargado 101 1 500 1))) 7
       = Some 500"
  by (simp add: db_dos_items_def item_delete_def borrar_def db_defs item_ej_def item_cargado_def
      item_defs Let_def)

text \<open>
  C8, as the code has it.  Saving an existing order item (an instance whose
  fields are those of its stored row, with the total a save has given it) with
  quantity and unit price unchanged leaves its \<open>total_item\<close> and the rows of the
  items as they were, and sets the \<open>importe\<close> of its order to the sum over the items
  of the order: the \<open>importe\<close> is what it was exactly when it was that sum before.
  It is that sum after every save that completes, so saving again what a save
  returned changes neither the instance nor the database.
\<close>

theorem item_save_sin_cambios:
  "(buscar i_item_id (i_item_id inst) (items_orden db) = Some (fila_de inst)
    \<and> i_total_item inst = i_cantidad inst * i_precio_unitario inst
    \<and> item_save db inst = (Inr inst1, db1) \<longrightarrow>
      i_total_item inst1 = i_total_item inst
      \<and> items_orden db1 = items_orden db
      \<and> importe_de db1 (i_pedido inst) = Some (suma_items db (i_pedido inst))
      \<and> ((importe_de db1 (i_pedido inst) = importe_de db (i_pedido inst))
           = (importe_de db (i_pedido inst) = Some (suma_items db (i_pedido inst)))))
   \<and> (item_save db0 inst0 = (Inr instg, dbg) \<longrightarrow> item_save dbg instg = (Inr instg, dbg))"
proof -
  have A: "buscar i_item_id (i_item_id inst) (items_orden db) = Some (fila_de inst)
    \<and> i_total_item inst = i_cantidad inst * i_precio_unitario inst
    \<and> item_save db inst = (Inr inst1, db1) \<longrightarrow>
      i_total_item inst1 = i_total_item inst
      \<and> items_orden db1 = items_orden db
      \<and> importe_de db1 (i_pedido inst) = Some (suma_items db (i_pedido inst))
      \<and> ((importe_de db1 (i_pedido inst) = importe_de db (i_pedido inst))
           = (importe_de db (i_pedido inst) = Some (suma_items db (i_pedido inst))))"
  proof
    assume h: "buscar i_item_id (i_item_id inst) (items_orden db) = Some (fila_de inst)
      \<and> i_total_item inst = i_cantidad inst * i_precio_unitario inst
      \<and> item_save db inst = (Inr inst1, db1)"
    then have l: "items_orden db1 = items_orden db \<and> fila_de inst1 = fila_de inst
       \<and> importe_de db1 (i_pedido inst) = Some (suma_items db (i_pedido inst))"
      using item_save_fila_igual [of inst db inst1 db1] by blast
    then have "i_total_item (fila_de inst1) = i_total_item (fila_de inst)" by simp
    then have t: "i_total_item inst1 = i_total_item inst" by simp
    have e: "(importe_de db1 (i_pedido inst) = importe_de db (i_pedido inst))
           = (importe_de db (i_pedido inst) = Some (suma_items db (i_pedido inst)))"
      using l by auto
    from l t e show "i_total_item inst1 = i_total_item inst
      \<and> items_orden db1 = items_orden db
      \<and> importe_de db1 (i_pedido inst) = Some (suma_items db (i_pedido inst))
      \<and> ((importe_de db1 (i_pedido inst) = importe_de db (i_pedido inst))
           = (importe_de db (i_pedido inst) = Some (suma_items db (i_pedido inst))))" by simp
  qed
  have B: "item_save db0 inst0 = (Inr instg, dbg) \<longrightarrow> item_save dbg instg = (Inr instg, dbg)"
    using item_save_idem by blast
  from A B show ?thesis by (rule conjI)
qed

text \<open>
  In order 7 with items of 5.00 and 7.50 and \<open>importe\<close> 12.50, the item of 7.50 is
  loaded and saved as it is: the rows and the \<open>importe\<close> stay.  An item of two units
  at 5.00 is saved into the empty order and what the save returned is saved
  again, with the same result.
\<close>

theorem item_save_sin_cambios_witness:
  "item_get db_dos_items 102 = Inr (item_cargado 102 3 250 0)
   \<and> importe_de db_dos_items 7 = Some 1250
   \<and> suma_items db_dos_items 7 = 1250
   \<and> importe_de (snd (item_save db_dos_items (item_cargado 102 3 250 0))) 7 = Some 1250
   \<and> items_orden (snd (item_save db_dos_items (item_cargado 102 3 250 0))) = items_orden db_dos_items
   \<and> item_save (snd (item_save db_ejemplo (item_ej 101 2 500 1)))
        ((item_ej 101 2 500 1)\<lparr>i_total_item := 1000, s_adding := False,
            s_pedido := Some (orden_ej\<lparr>o_importe := 1000\<rparr>)\<rparr>)
     = item_save db_ejemplo (item_ej 101 2 500 1)"
proof -
  let ?i = "item_cargado 102 3 250 0"
  have g: "item_get db_dos_items 102 = Inr ?i"
    by (simp add: db_dos_items_def db_defs item_ej_def item_cargado_def item_defs Let_def)
  have s: "item_save db_dos_items ?i
      = (Inr (?i\<lparr>s_pedido := Some (orden_ej\<lparr>o_importe := 1250\<rparr>)\<rparr>),
         snd (item_save db_dos_items ?i))"
    by (simp add: db_dos_items_def db_defs item_ej_def item_cargado_def item_defs Let_def)
  have h: "buscar i_item_id (i_item_id ?i) (items_orden db_dos_items) = Some (fila_de ?i)
    \<and> i_total_item ?i = i_cantidad ?i * i_precio_unitario ?i
    \<and> item_save db_dos_items ?i
      = (Inr (?i\<lparr>s_pedido := Some (orden_ej\<lparr>o_importe := 1250\<rparr>)\<rparr>),
         snd (item_save db_dos_items ?i))"
    using s by (simp add: db_dos_items_def db_defs item_ej_def item_cargado_def item_defs Let_def)
  have p: "i_pedido ?i = 7" by (simp add: item_cargado_def item_ej_def)
  have i: "importe_de db_dos_items 7 = Some 1250"
    and u: "suma_items db_dos_items 7 = 1250"
    by (simp_all add: db_dos_items_def db_defs item_ej_def item_defs Let_def)
  have 1: "items_orden (snd (item_save db_dos_items ?i)) = items_orden db_dos_items
      \<and> importe_de (snd (item_save db_dos_items ?i)) (i_pedido ?i)
          = Some (suma_items db_dos_items (i_pedido ?i))"
    using item_save_sin_cambios
      [of ?i db_dos_items "?i\<lparr>s_pedido := Some (orden_ej\<lparr>o_importe := 1250\<rparr>)\<rparr>"
          "snd (item_save db_dos_items ?i)", THEN conjunct1] h
    by blast
  have f: "item_save db_ejemplo (item_ej 101 2 500 1)
      = (Inr ((item_ej 101 2 500 1)\<lparr>i_total_item := 1000, s_adding := False,
            s_pedido := Some (orden_ej\<lparr>o_importe := 1000\<rparr>)\<rparr>),
         snd (item_save db_ejemplo (item_ej 101 2 500 1)))"
    by (simp add: db_defs item_ej_def item_defs Let_def)
  have 2: "item_save (snd (item_save db_ejemplo (item_ej 101 2 500 1)))
        ((item_ej 101 2 500 1)\<lparr>i_total_item := 1000, s_adding := False,
            s_pedido := Some (orden_ej\<lparr>o_importe := 1000\<rparr>)\<rparr>)
     = item_save db_ejemplo (item_ej 101 2 500 1)"
    using item_save_sin_cambios
      [of _ _ _ _ db_ejemplo "item_ej 101 2 500 1"
          "(item_ej 101 2 500 1)\<lparr>i_total_item := 1000, s_adding := False,
            s_pedido := Some (orden_ej\<lparr>o_importe := 1000\<rparr>)\<rparr>"
          "snd (item_save db_ejemplo (item_ej 101 2 500 1))", THEN conjunct2] f
    by simp
  from g i u 1 2 p show ?thesis by simp
qed

text \<open>
  C9.  Deleting an order item leaves the table of orders as it is.  When the
  item's row was stored (item keys being unique) and the order's \<open>importe\<close> was the
  sum over its items, then after the delete the row is gone, the \<open>importe\<close> is
  unchanged and exceeds the sum over the remaining items by the deleted item's
  total; and any later save of an item that completes brings the \<open>importe\<close> of that
  item's order back to the sum over its items.
\<close>

theorem item_delete_no_actualiza_importe:
  assumes "buscar i_item_id k (items_orden db) = Some it"
      and "distinct (map i_item_id (items_orden db))"
      and "importe_de db (i_pedido it) = Some (suma_items db (i_pedido it))"
  shows "ordenes (item_delete db k) = ordenes db
       \<and> buscar i_item_id k (items_orden (item_delete db k)) = None
       \<and> importe_de (item_delete db k) (i_pedido it) = importe_de db (i_pedido it)
       \<and> importe_de (item_delete db k) (i_pedido it)
           = Some (suma_items (item_delete db k) (i_pedido it) + i_total_item it)
       \<and> (item_save (item_delete db k) otro = (Inr otro1, db1) \<longrightarrow>
            importe_de db1 (i_pedido otro1) = Some (suma_items db1 (i_pedido otro1)))"
proof -
  have 1: "ordenes (item_delete db k) = ordenes db" by (simp add: item_delete_def)
  have 2: "buscar i_item_id k (items_orden (item_delete db k)) = None"
    by (simp add: item_delete_def buscar_borrar)
  have 3: "importe_de (item_delete db k) (i_pedido it) = importe_de db (i_pedido it)"
    by (simp add: importe_de_def 1)
  have "suma_items db (i_pedido it) = suma_items (item_delete db k) (i_pedido it) + i_total_item it"
    using suma_de_orden_borrar [OF assms(2) assms(1), of "i_pedido it"]
    by (simp add: suma_items_def item_delete_def)
  then have 4: "importe_de (item_delete db k) (i_pedido it)
           = Some (suma_items (item_delete db k) (i_pedido it) + i_total_item it)"
    using 3 assms(3) by simp
  have 5: "item_save (item_delete db k) otro = (Inr otro1, db1) \<longrightarrow>
            importe_de db1 (i_pedido otro1) = Some (suma_items db1 (i_pedido otro1))"
    using item_save_importe by blast
  from 1 2 3 4 5 show ?thesis by blast
qed

text \<open>
  Order 7 holds items of 5.00 and 7.50 and has \<open>importe\<close> 12.50.  After the item of
  5.00 is deleted the \<open>importe\<close> is still 12.50 while the remaining item sums to
  7.50; loading and saving the remaining item makes it 7.50.
\<close>

theorem item_delete_no_actualiza_importe_witness:
  "importe_de db_dos_items 7 = Some 1250
   \<and> importe_de (item_delete db_dos_items 101) 7 = Some 1250
   \<and> suma_items (item_delete db_dos_items 101) 7 = 750
   \<and> importe_de (snd (item_save (item_delete db_dos_items 101) (item_cargado 102 3 250 0))) 7
       = Some 750"
proof -
  let ?r = "fila_de ((item_ej 101 1 500 1)\<lparr>i_total_item := 500\<rparr>)"
  have h1: "buscar i_item_id 101 (items_orden db_dos_items) = Some ?r"
    by (simp add: db_dos_items_def db_defs item_ej_def item_defs Let_def)
  have h2: "distinct (map i_item_id (items_orden db_dos_items))"
    by (simp add: db_dos_items_def db_defs item_ej_def item_defs Let_def)
  have p: "i_pedido ?r = 7" and t: "i_total_item ?r = 500"
    by (simp_all add: item_ej_def)
  have i: "importe_de db_dos_items 7 = Some 1250"
    by (simp add: db_dos_items_def db_defs item_ej_def item_defs Let_def)
  have s: "suma_items db_dos_items 7 = 1250"
    by (simp add: db_dos_items_def db_defs item_ej_def item_defs Let_def)
  have h3: "importe_de db_dos_items (i_pedido ?r) = Some (suma_items db_dos_items (i_pedido ?r))"
    using i s p by simp
  have r: "importe_de (snd (item_save (item_delete db_dos_items 101) (item_cargado 102 3 250 0))) 7
      = Some 750"
    by (simp add: db_dos_items_def item_delete_def borrar_def db_defs item_ej_def item_cargado_def
        item_defs Let_def)
  have "importe_de (item_delete db_dos_items 101) 7 = Some 1250
      \<and> importe_de (item_delete db_dos_items 101) 7
          = Some (suma_items (item_delete db_dos_items 101) 7 + 500)"
    using item_delete_no_actualiza_importe
      [OF h1 h2 h3, of "item_cargado 102 3 250 0" "item_cargado 102 3 250 0" db_ejemplo]
    unfolding p t using i by metis
  then have "importe_de (item_delete db_dos_items 101) 7 = Some 1250
      \<and> suma_items (item_delete db_dos_items 101) 7 = 750" by auto
  with i r show ?thesis by simp
qed

subsection \<open>Articles\<close>

text \<open>
  C3.  The claim: for valid input, \<open>create\<close> stores the article and, with it, a
  price list holding the supplied \<open>precio_1\<close> and no other price.  The code stores
  the article and then fails.  The input below passes validation; the article row
  is written with the code, description and stock of the input; the insert of the
  price list passes only \<open>precio_1\<close>, the other five price columns admit no null
  and have no default, so the insert is rejected and \<open>create\<close> ends with an
  \<open>IntegrityError\<close>, an article and no price list.
\<close>

theorem create_no_guarda_lista_precios:
  "run_validation db_ejemplo (datos_ej ''B002'' 1 1) = Inr (datos_ej ''B002'' 1 1)
   \<and> crear_articulo db_ejemplo 11 1 (datos_ej ''B002'' 1 1) =
       (Inl IntegrityError,
        db_ejemplo\<lparr>articulos := [articulo_ej,
          \<lparr>a_articulo_id = 11, a_codigo_articulo = ''B002'', a_codigo_barras = ''776'',
           a_descripcion = ''Azucar'', a_presentacion = ''Bolsa'', a_grupo = 1, a_linea = 1,
           a_estado = 1, a_stock = 300, a_imagen = []\<rparr>]\<rparr>)
   \<and> buscar lp_articulo 11
        (lista_precios (snd (crear_articulo db_ejemplo 11 1 (datos_ej ''B002'' 1 1)))) = None"
  by (simp add: db_defs datos_ej_def crear_defs Let_def)

text \<open>
  C4.  Creating an article fails with a validation error and writes nothing when
  the group does not exist, when the group exists and the line does not, and when
  both exist and the line's group is another one than the group supplied.  When
  the fields themselves are valid, so that the object-level validation runs, the
  error map has exactly one entry: under \<open>grupo_id\<close> in the first case and under
  \<open>linea_id\<close> in the other two.
\<close>

theorem validate_grupo_y_linea:
  "(buscar g_grupo_id (d_grupo_id d) (grupos db) = None \<longrightarrow>
      (\<exists>errs. crear_articulo db k act d = (Inl (ValidationError errs), db)
         \<and> (errores_de_campos db d = [] \<longrightarrow> errs = [(''grupo_id'', GrupoNoExiste)])))
   \<and> (buscar g_grupo_id (d_grupo_id d) (grupos db) = Some g
        \<and> buscar l_linea_id (d_linea_id d) (lineas db) = None \<longrightarrow>
      (\<exists>errs. crear_articulo db k act d = (Inl (ValidationError errs), db)
         \<and> (errores_de_campos db d = [] \<longrightarrow> errs = [(''linea_id'', LineaNoExiste)])))
   \<and> (buscar g_grupo_id (d_grupo_id d) (grupos db) = Some g
        \<and> buscar l_linea_id (d_linea_id d) (lineas db) = Some l
        \<and> buscar g_grupo_id (l_grupo l) (grupos db) = Some lg
        \<and> l_grupo l \<noteq> d_grupo_id d \<longrightarrow>
      (\<exists>errs. crear_articulo db k act d = (Inl (ValidationError errs), db)
         \<and> (errores_de_campos db d = [] \<longrightarrow> errs = [(''linea_id'', LineaNoPertenece)])))"
proof (cases "errores_de_campos db d = []")
  case True
  then have rv: "run_validation db d = validate db d"
    unfolding run_validation_def Let_def by simp
  have "buscar g_grupo_id (l_grupo l) (grupos db) = Some lg \<Longrightarrow> g_grupo_id lg = l_grupo l"
    by (rule buscar_pk)
  then show ?thesis using True rv unfolding crear_articulo_def validate_def by auto
next
  case False
  then show ?thesis
    using crear_articulo_invalido [OF run_validation_campos [OF False], of k act] by simp
qed

text \<open>
  The three cases in the example database: group 9 does not exist, line 9 does
  not exist, and line 2 belongs to group 2, not to group 1.
\<close>

theorem validate_grupo_y_linea_witness:
  "crear_articulo db_ejemplo 11 1 (datos_ej ''B002'' 9 1)
     = (Inl (ValidationError [(''grupo_id'', GrupoNoExiste)]), db_ejemplo)
   \<and> crear_articulo db_ejemplo 11 1 (datos_ej ''B002'' 1 9)
     = (Inl (ValidationError [(''linea_id'', LineaNoExiste)]), db_ejemplo)
   \<and> crear_articulo db_ejemplo 11 1 (datos_ej ''B002'' 1 2)
     = (Inl (ValidationError [(''linea_id'', LineaNoPertenece)]), db_ejemplo)"
proof -
  have campos: "errores_de_campos db_ejemplo (datos_ej ''B002'' g l) = []" for g l
    by (simp add: db_defs datos_ej_def crear_defs)
  have g9: "buscar g_grupo_id (d_grupo_id (datos_ej ''B002'' 9 1)) (grupos db_ejemplo) = None"
    by (simp add: db_defs datos_ej_def buscar_def)
  have l9: "buscar g_grupo_id (d_grupo_id (datos_ej ''B002'' 1 9)) (grupos db_ejemplo)
        = Some (grupo_ej 1)
      \<and> buscar l_linea_id (d_linea_id (datos_ej ''B002'' 1 9)) (lineas db_ejemplo) = None"
    by (simp add: db_defs datos_ej_def buscar_def)
  have l2: "buscar g_grupo_id (d_grupo_id (datos_ej ''B002'' 1 2)) (grupos db_ejemplo)
        = Some (grupo_ej 1)
      \<and> buscar l_linea_id (d_linea_id (datos_ej ''B002'' 1 2)) (lineas db_ejemplo)
        = Some (linea_ej 2 2)
      \<and> buscar g_grupo_id (l_grupo (linea_ej 2 2)) (grupos db_ejemplo) = Some (grupo_ej 2)
      \<and> l_grupo (linea_ej 2 2) \<noteq> d_grupo_id (datos_ej ''B002'' 1 2)"
    by (simp add: db_defs datos_ej_def buscar_def)
  have a: "crear_articulo db_ejemplo 11 1 (datos_ej ''B002'' 9 1)
     = (Inl (ValidationError [(''grupo_id'', GrupoNoExiste)]), db_ejemplo)"
    using validate_grupo_y_linea [of "datos_ej ''B002'' 9 1" db_ejemplo 11 1] g9 campos by auto
  have b: "crear_articulo db_ejemplo 11 1 (datos_ej ''B002'' 1 9)
     = (Inl (ValidationError [(''linea_id'', LineaNoExiste)]), db_ejemplo)"
    using validate_grupo_y_linea [of "datos_ej ''B002'' 1 9" db_ejemplo 11 1 "grupo_ej 1"]
      l9 campos
    by auto
  have c: "crear_articulo db_ejemplo 11 1 (datos_ej ''B002'' 1 2)
     = (Inl (ValidationError [(''linea_id'', LineaNoPertenece)]), db_ejemplo)"
    using validate_grupo_y_linea
      [of "datos_ej ''B002'' 1 2" db_ejemplo 11 1 "grupo_ej 1" "linea_ej 2 2" "grupo_ej 2"]
      l2 campos
    by auto
  from a b c show ?thesis by simp
qed

text \<open>
  C5.  Creating an article whose code is the code of a stored article, or has
  fewer than 4 characters, fails with a validation error whose map has an entry
  under \<open>codigo_articulo\<close>, and leaves the database as it was: no article and no
  price list is written.  The entry is the uniqueness message for a stored code
  and the length message for a short new one (the field itself reports an empty
  code as blank and a code of more than 25 characters as too long, before the
  hook runs).
\<close>

theorem codigo_articulo_rechazado:
  assumes "list_ex (\<lambda>a. a_codigo_articulo a = d_codigo_articulo d) (articulos db)
           \<or> length (d_codigo_articulo d) < 4"
  shows "\<exists>errs. crear_articulo db k act d = (Inl (ValidationError errs), db)
           \<and> map_of errs ''codigo_articulo'' =
               Some (if d_codigo_articulo d = [] then Blank
                     else if length (d_codigo_articulo d) > 25 then MaxLength 25
                     else if list_ex (\<lambda>a. a_codigo_articulo a = d_codigo_articulo d) (articulos db)
                          then CodigoYaExiste else CodigoMuyCorto)"
proof -
  let ?m = "if d_codigo_articulo d = [] then Blank
            else if length (d_codigo_articulo d) > 25 then MaxLength 25
            else if list_ex (\<lambda>a. a_codigo_articulo a = d_codigo_articulo d) (articulos db)
                 then CodigoYaExiste else CodigoMuyCorto"
  have "\<exists>resto. errores_de_campos db d = (''codigo_articulo'', ?m) # resto"
    using assms unfolding errores_de_campos_def error_de_def entonces_def campo_char_def
      validate_codigo_articulo_def
    by auto
  then obtain resto where e: "errores_de_campos db d = (''codigo_articulo'', ?m) # resto"
    by blast
  then have "errores_de_campos db d \<noteq> []" by simp
  from crear_articulo_invalido [OF run_validation_campos [OF this], of k act] e
  show ?thesis by simp
qed

text \<open>
  The stored code \<open>A001\<close> and the two-character code \<open>B2\<close> in the example
  database.
\<close>

theorem codigo_articulo_rechazado_witness:
  "crear_articulo db_ejemplo 11 1 (datos_ej ''A001'' 1 1)
     = (Inl (ValidationError [(''codigo_articulo'', CodigoYaExiste)]), db_ejemplo)
   \<and> crear_articulo db_ejemplo 11 1 (datos_ej ''B2'' 1 1)
     = (Inl (ValidationError [(''codigo_articulo'', CodigoMuyCorto)]), db_ejemplo)"
proof -
  have h1: "list_ex (\<lambda>a. a_codigo_articulo a = d_codigo_articulo (datos_ej ''A001'' 1 1))
       (articulos db_ejemplo)
     \<or> length (d_codigo_articulo (datos_ej ''A001'' 1 1)) < 4"
    by (simp add: db_defs datos_ej_def)
  have h2: "list_ex (\<lambda>a. a_codigo_articulo a = d_codigo_articulo (datos_ej ''B2'' 1 1))
       (articulos db_ejemplo)
     \<or> length (d_codigo_articulo (datos_ej ''B2'' 1 1)) < 4"
    by (simp add: db_defs datos_ej_def)
  have e1: "errores_de_campos db_ejemplo (datos_ej ''A001'' 1 1)
      = [(''codigo_articulo'', CodigoYaExiste)]"
    by (simp add: db_defs datos_ej_def crear_defs)
  have e2: "errores_de_campos db_ejemplo (datos_ej ''B2'' 1 1)
      = [(''codigo_articulo'', CodigoMuyCorto)]"
    by (simp add: db_defs datos_ej_def crear_defs)
  have a: "crear_articulo db_ejemplo 11 1 (datos_ej ''A001'' 1 1)
     = (Inl (ValidationError [(''codigo_articulo'', CodigoYaExiste)]), db_ejemplo)"
    using codigo_articulo_rechazado [OF h1, of 11 1] e1
    by (auto simp: crear_articulo_def run_validation_def)
  have b: "crear_articulo db_ejemplo 11 1 (datos_ej ''B2'' 1 1)
     = (Inl (ValidationError [(''codigo_articulo'', CodigoMuyCorto)]), db_ejemplo)"
    using codigo_articulo_rechazado [OF h2, of 11 1] e2
    by (auto simp: crear_articulo_def run_validation_def)
  from a b show ?thesis by simp
qed

text \<open>
  C6.  The claim: no serializer operation stores a negative stock; in particular
  an existing article's stock cannot be set below zero.  ArticuloCreateSerializer
  rejects a negative stock in \<open>validate_stock\<close>, but ArticuloSerializer has no such
  check: its \<open>stock\<close> field accepts \<open>-1.00\<close>, and \<open>update\<close> with that value stores it
  in the row of article 10, whose stock was 5.00.  (ArticuloModelSerializer and
  the ArticuloSerializer of line 62 take \<open>stock\<close> from the model column, which has
  no lower bound either.)
\<close>

theorem update_guarda_stock_negativo:
  "ArticuloSerializer_stock (- 100) = Inr (- 100)
   \<and> buscar a_articulo_id 10 (articulos db_ejemplo) = Some articulo_ej
   \<and> a_stock articulo_ej = 500
   \<and> update db_ejemplo articulo_ej
        \<lparr>v_codigo_articulo = None, v_codigo_barras = None, v_descripcion = None,
         v_presentacion = None, v_stock = Some (- 100)\<rparr>
      = (Inr (articulo_ej\<lparr>a_stock := - 100\<rparr>),
         db_ejemplo\<lparr>articulos := [articulo_ej\<lparr>a_stock := - 100\<rparr>]\<rparr>)"
  by (simp add: db_defs ArticuloSerializer_stock_def campo_decimal_def update_def dict_get_def
      articulo_model_save_def buscar_def Let_def)

text \<open>
  C10.  A delete of an article that succeeds removes the article's row and the
  row of its price list together, and it succeeds when no order item references
  the article.  Deleting the group or the line of a stored article is rejected
  with \<open>RestrictedError\<close>, and nothing is removed.
\<close>

theorem articulo_delete_en_cascada:
  "(articulo_delete db k = Inr db1 \<longrightarrow>
      buscar a_articulo_id k (articulos db1) = None
      \<and> buscar lp_articulo k (lista_precios db1) = None)
   \<and> (list_ex (\<lambda>it. ip_articulo it = k) (items_pedido db) = False
        \<and> list_ex (\<lambda>it. i_articulo it = k) (items_orden db) = False \<longrightarrow>
      (\<exists>db1. articulo_delete db k = Inr db1))
   \<and> (buscar a_articulo_id k (articulos db) = Some art \<longrightarrow>
        grupo_delete db (a_grupo art) = Inl RestrictedError
        \<and> linea_delete db (a_linea art) = Inl RestrictedError)"
proof -
  have casc: "articulo_delete db k = Inr db1 \<longrightarrow>
      buscar a_articulo_id k (articulos db1) = None
      \<and> buscar lp_articulo k (lista_precios db1) = None"
  proof
    assume "articulo_delete db k = Inr db1"
    then have "db1 = db\<lparr>lista_precios := borrar lp_articulo k (lista_precios db),
                     articulos := borrar a_articulo_id k (articulos db)\<rparr>"
      unfolding articulo_delete_def by (auto split: if_splits)
    then show "buscar a_articulo_id k (articulos db1) = None
        \<and> buscar lp_articulo k (lista_precios db1) = None"
      by (simp add: buscar_borrar)
  qed
  have libre: "list_ex (\<lambda>it. ip_articulo it = k) (items_pedido db) = False
        \<and> list_ex (\<lambda>it. i_articulo it = k) (items_orden db) = False \<longrightarrow>
      (\<exists>db1. articulo_delete db k = Inr db1)"
    unfolding articulo_delete_def by simp
  have restr: "buscar a_articulo_id k (articulos db) = Some art \<longrightarrow>
        grupo_delete db (a_grupo art) = Inl RestrictedError
        \<and> linea_delete db (a_linea art) = Inl RestrictedError"
  proof
    assume "buscar a_articulo_id k (articulos db) = Some art"
    then have m: "art \<in> set (articulos db)" unfolding buscar_def by (auto simp: find_Some_iff)
    then have "list_ex (\<lambda>a. a_grupo a = a_grupo art) (articulos db)"
      and "list_ex (\<lambda>a. a_linea a = a_linea art) (articulos db)"
      by (auto simp: list_ex_iff)
    then show "grupo_delete db (a_grupo art) = Inl RestrictedError
        \<and> linea_delete db (a_linea art) = Inl RestrictedError"
      unfolding grupo_delete_def linea_delete_def by simp
  qed
  from casc libre restr show ?thesis by blast
qed

text \<open>
  In the example database article 10 and its price list go together, and group 1
  and line 1, which article 10 references, cannot be deleted.
\<close>

theorem articulo_delete_en_cascada_witness:
  "articulo_delete db_ejemplo 10 = Inr (db_ejemplo\<lparr>lista_precios := [], articulos := []\<rparr>)
   \<and> buscar lp_articulo 10 (lista_precios db_ejemplo) = Some lista_ej
   \<and> grupo_delete db_ejemplo 1 = Inl RestrictedError
   \<and> linea_delete db_ejemplo 1 = Inl RestrictedError"
proof -
  have h: "buscar a_articulo_id 10 (articulos db_ejemplo) = Some articulo_ej"
    by (simp add: db_defs buscar_def)
  have g: "a_grupo articulo_ej = 1" "a_linea articulo_ej = 1" by (simp_all add: db_defs)
  have d: "articulo_delete db_ejemplo 10 = Inr (db_ejemplo\<lparr>lista_precios := [], articulos := []\<rparr>)"
    by (simp add: db_defs articulo_delete_def borrar_def)
  have l: "buscar lp_articulo 10 (lista_precios db_ejemplo) = Some lista_ej"
    by (simp add: db_defs buscar_def)
  from articulo_delete_en_cascada [of db_ejemplo 10 _ articulo_ej] h g d l show ?thesis by simp
qed

end
